theory Spec2Isabelle
  imports Main "HOL-Library.AList" "HOL-Library.Multiset" "HOL-Library.Signed_Division"
begin

section \<open>The Fish game worker: data model\<close>

text \<open>
  The embedding follows the \<open>GameHandler\<close> class of the worker, in the source file that
  has all its methods. (The second source file has the same helper methods, among them
  \<open>getPlayerView\<close>, leaves the game methods out, and its \<open>handleMessage\<close> logs an
  exception without a reply.) Strings are byte lists;
  the four suit symbols of the deck are written as their UTF-8 bytes, so that two card
  names are equal here exactly when the JavaScript strings are equal.

  A JavaScript object used as a dictionary (\<open>hands\<close>, \<open>assignments\<close>, the half-suit
  table) is an association list in the object's enumeration order; reading a key is
  \<open>map_of\<close>, writing one is \<open>AList.update\<close> (an existing key keeps its place, a new key
  goes last). A name that reads as an array index would be enumerated before the
  others; the code never enumerates \<open>hands\<close>, and \<open>assignments\<close> is given as its list of
  entries, in the order the code enumerates them.

  Reading a key that an object does not have gives \<open>undefined\<close>, unless the key names a
  member that every object inherits (\<open>constructor\<close>, \<open>toString\<close>, ...): then it gives that
  member. \<open>getProperty\<close> below is this read. One case is left out: a player called
  \<open>__proto__\<close>, for whom writing \<open>hands[player]\<close> would replace the prototype of \<open>hands\<close>;
  the model gives such a player a hand like any other.
\<close>

definition heart :: string where
  "heart = [CHR 0xE2, CHR 0x99, CHR 0xA5]"

definition diamond :: string where
  "diamond = [CHR 0xE2, CHR 0x99, CHR 0xA6]"

definition club :: string where
  "club = [CHR 0xE2, CHR 0x99, CHR 0xA3]"

definition spade :: string where
  "spade = [CHR 0xE2, CHR 0x99, CHR 0xA0]"

definition lowRanks :: "string list" where
  "lowRanks = [''2'', ''3'', ''4'', ''5'', ''6'', ''7'']"

definition highRanks :: "string list" where
  "highRanks = [''9'', ''10'', ''J'', ''Q'', ''K'', ''A'']"

text \<open>\<open>getHalfSuits()\<close>: the table of the eight half-suits, in the order of the literal.\<close>

definition getHalfSuits :: "(string \<times> string list) list" where
  "getHalfSuits =
     [(''low-hearts'', map (\<lambda>r. r @ heart) lowRanks),
      (''high-hearts'', map (\<lambda>r. r @ heart) highRanks),
      (''low-diamonds'', map (\<lambda>r. r @ diamond) lowRanks),
      (''high-diamonds'', map (\<lambda>r. r @ diamond) highRanks),
      (''low-clubs'', map (\<lambda>r. r @ club) lowRanks),
      (''high-clubs'', map (\<lambda>r. r @ club) highRanks),
      (''low-spades'', map (\<lambda>r. r @ spade) lowRanks),
      (''high-spades'', map (\<lambda>r. r @ spade) highRanks)]"

text \<open>\<open>createDeck()\<close>: the values of the table, pushed in order.\<close>

definition createDeck :: "string list" where
  "createDeck = concat (map snd getHalfSuits)"

text \<open>
  The members of \<open>Object.prototype\<close>: functions, each with its \<open>length\<close>, and the
  accessor \<open>__proto__\<close>, which gives the prototype object itself (it has no \<open>length\<close>).
\<close>

datatype inherited = Function nat | Prototype

definition objectPrototype :: "(string \<times> inherited) list" where
  "objectPrototype =
     [(''constructor'', Function 1),
      (''__defineGetter__'', Function 2),
      (''__defineSetter__'', Function 2),
      (''hasOwnProperty'', Function 1),
      (''__lookupGetter__'', Function 1),
      (''__lookupSetter__'', Function 1),
      (''isPrototypeOf'', Function 1),
      (''propertyIsEnumerable'', Function 1),
      (''toString'', Function 0),
      (''valueOf'', Function 0),
      (''__proto__'', Prototype),
      (''toLocaleString'', Function 0)]"

text \<open>\<open>obj[key]\<close> on a plain object whose own keys and values are \<open>obj\<close>.\<close>

datatype 'a property = Own 'a | Inherited inherited | Undefined

definition getProperty :: "(string \<rightharpoonup> 'a) \<Rightarrow> string \<Rightarrow> 'a property" where
  "getProperty obj key =
     (case obj key of
        Some v \<Rightarrow> Own v
      | None \<Rightarrow> (case map_of objectPrototype key of
                   Some m \<Rightarrow> Inherited m
                 | None \<Rightarrow> Undefined))"

text \<open>
  The game state object. The type parameter is what a hand is: a card list in the stored
  session, a redacted value in the copy \<open>getPlayerView\<close> returns. \<open>currentTurn\<close> is an
  integer because \<open>indexOf\<close> can store \<open>-1\<close>.
\<close>

record 'h gameState =
  code :: string
  players :: "string list"
  teams_team1 :: "string list"
  teams_team2 :: "string list"
  hands :: "(string \<times> 'h) list"
  currentTurn :: int
  claimedSuits_team1 :: "string list"
  claimedSuits_team2 :: "string list"
  host :: string
  started :: bool
  created :: nat

type_synonym session = "string list gameState"

text \<open>
  What a viewer sees of one hand: the card list (the viewer's own), \<open>new Array(n)\<close> (an
  array of \<open>n\<close> holes, for anybody else), or no hand: \<open>undefined\<close>, or an inherited member
  under the viewer's name, which \<open>JSON.stringify\<close> leaves out of the message as it does
  \<open>undefined\<close>.
\<close>

datatype handView = Cards "string list" | Hidden nat | NoHand

type_synonym playerView = "handView gameState"

datatype team = Team1 | Team2

datatype error = TypeError

text \<open>The messages a connection receives, after \<open>JSON.parse\<close> and the \<open>switch\<close> on \<open>type\<close>.\<close>

datatype request =
    CreateGame string
  | JoinGame string string
  | AssignTeams string bool
  | StartGame string
  | AskForCard string string string
  | MakeClaim string string "(string \<times> string list) list"
  | Rejoin string string
  | UnknownType
  | Unparseable

text \<open>The messages the handler sends on its socket.\<close>

datatype reply =
    ErrorMsg string
  | GameCreated string string
  | PlayerJoined string "string list"
  | TeamsAssigned "string list" "string list"
  | GameStarted playerView
  | TurnUpdate playerView string
  | GameEnded string nat nat

text \<open>
  The handler object of one connection (\<open>this.playerId\<close>, \<open>this.gameCode\<close>; \<open>None\<close> is
  \<open>null\<close>), and what all connections share: \<open>global.games\<close> and the pending
  \<open>setTimeout\<close> deletions (the game code each one will delete). \<open>global.games\<close> is
  \<open>undefined\<close> until the first \<open>storeGameState\<close> makes it an object: \<open>storeExists\<close> says
  whether it is an object, \<open>games\<close> holds its own keys.

  \<open>getGameState\<close> returns the stored object itself and the methods mutate it in place,
  so every assignment to a field is at once a change of the store; \<open>storeGameState\<close>
  then stores the same object under the same key. The model writes the new session into
  \<open>games\<close> at each point where a method returns or throws.
\<close>

record handler =
  playerId :: "string option"
  gameCode :: "string option"

record world =
  games :: "string \<rightharpoonup> session"
  storeExists :: bool
  timers :: "string list"

text \<open>
  What the calls to \<open>Math.random\<close> and \<open>Date.now\<close> give while one message is handled:
  the generated game code, the time, and the permutation that \<open>sort\<close> with the random
  comparator applies. \<open>generateGameCode\<close> gives at most six digits and capital letters;
  here the code is any string, stored like an own key.
\<close>

record env =
  rnd_code :: string
  now :: nat
  shuffle :: "string list \<Rightarrow> string list"

text \<open>
  The result of a method: whether it threw (\<open>handleMessage\<close> catches every exception),
  the messages sent, and the handler and the shared state it leaves.
\<close>

record result =
  thrown :: bool
  sent :: "reply list"
  handler_of :: handler
  world_of :: world

definition returns :: "reply list \<Rightarrow> handler \<Rightarrow> world \<Rightarrow> result" where
  "returns ms h w = \<lparr>thrown = False, sent = ms, handler_of = h, world_of = w\<rparr>"

definition throws :: "reply list \<Rightarrow> handler \<Rightarrow> world \<Rightarrow> result" where
  "throws ms h w = \<lparr>thrown = True, sent = ms, handler_of = h, world_of = w\<rparr>"

section \<open>Helpers\<close>

text \<open>
  \<open>players[currentTurn]\<close>: \<open>undefined\<close> out of range. As a property key and in a template
  string \<open>undefined\<close> reads as the string \<open>"undefined"\<close>; \<open>includes(undefined)\<close> is false on
  a list of strings.
\<close>

definition playerAt :: "'h gameState \<Rightarrow> string option" where
  "playerAt gs =
     (if 0 \<le> currentTurn gs \<and> nat (currentTurn gs) < length (players gs)
      then Some (players gs ! nat (currentTurn gs)) else None)"

definition jsString :: "string option \<Rightarrow> string" where
  "jsString v = (case v of None \<Rightarrow> ''undefined'' | Some s \<Rightarrow> s)"

definition includesOpt :: "string list \<Rightarrow> string option \<Rightarrow> bool" where
  "includesOpt xs v = (case v of None \<Rightarrow> False | Some s \<Rightarrow> s \<in> set xs)"

text \<open>\<open>xs.indexOf(x)\<close>: the first position of \<open>x\<close>, or \<open>-1\<close>.\<close>

fun indexOf :: "string list \<Rightarrow> string \<Rightarrow> int" where
  "indexOf [] x = -1"
| "indexOf (y # ys) x =
     (if y = x then 0 else (let i = indexOf ys x in if i < 0 then -1 else i + 1))"

text \<open>\<open>xs.filter((_, i) => i % 2 === r)\<close>, from position \<open>i\<close> on.\<close>

fun filterParity :: "nat \<Rightarrow> nat \<Rightarrow> 'a list \<Rightarrow> 'a list" where
  "filterParity r i [] = []"
| "filterParity r i (x # xs) =
     (if i mod 2 = r then x # filterParity r (Suc i) xs else filterParity r (Suc i) xs)"

definition teamName :: "team \<Rightarrow> string" where
  "teamName t = (case t of Team1 \<Rightarrow> ''team1'' | Team2 \<Rightarrow> ''team2'')"

section \<open>The player view\<close>

text \<open>
  \<open>getPlayerView\<close>: the loop over \<open>players\<close> that fills \<open>view.hands\<close>. Reading
  \<open>gameState.hands[p].length\<close> throws a TypeError when \<open>hands[p]\<close> is \<open>undefined\<close>. When
  \<open>hands[p]\<close> is an inherited function, \<open>length\<close> is that function's; for \<open>__proto__\<close> it
  is \<open>undefined\<close>, and \<open>new Array(undefined)\<close> is an array of the one element \<open>undefined\<close>,
  which is sent as one hole is.
\<close>

definition ownHand :: "(string \<times> string list) list \<Rightarrow> string \<Rightarrow> handView" where
  "ownHand hs viewer =
     (case getProperty (map_of hs) viewer of Own h \<Rightarrow> Cards h | _ \<Rightarrow> NoHand)"

fun viewHands ::
  "(string \<times> string list) list \<Rightarrow> string \<Rightarrow> string list \<Rightarrow> (string \<times> handView) list
    \<Rightarrow> error + (string \<times> handView) list" where
  "viewHands hs viewer [] acc = Inr acc"
| "viewHands hs viewer (p # ps) acc =
     (if p = viewer
      then viewHands hs viewer ps (AList.update p (ownHand hs viewer) acc)
      else (case getProperty (map_of hs) p of
              Undefined \<Rightarrow> Inl TypeError
            | Own h \<Rightarrow> viewHands hs viewer ps (AList.update p (Hidden (length h)) acc)
            | Inherited (Function n) \<Rightarrow> viewHands hs viewer ps (AList.update p (Hidden n) acc)
            | Inherited Prototype \<Rightarrow> viewHands hs viewer ps (AList.update p (Hidden 1) acc)))"

definition getPlayerView :: "session \<Rightarrow> string \<Rightarrow> error + playerView" where
  "getPlayerView gameState playerName =
     (case viewHands (hands gameState) playerName (players gameState) [] of
        Inl e \<Rightarrow> Inl e
      | Inr vh \<Rightarrow>
          Inr \<lparr>code = code gameState, players = players gameState,
               teams_team1 = teams_team1 gameState, teams_team2 = teams_team2 gameState,
               hands = vh, currentTurn = currentTurn gameState,
               claimedSuits_team1 = claimedSuits_team1 gameState,
               claimedSuits_team2 = claimedSuits_team2 gameState,
               host = host gameState, started = started gameState,
               created = created gameState\<rparr>)"

text \<open>
  \<open>gameState.players.forEach(player => this.sendToPlayer(player, {..., gameState:
  this.getPlayerView(gameState, player)}))\<close>. The view is computed for every player, before
  \<open>sendToPlayer\<close> looks at \<open>this.playerId\<close>; an exception ends the loop, after the messages
  already sent. The result is whether it threw, and the messages.
\<close>

fun sendViews ::
  "handler \<Rightarrow> (playerView \<Rightarrow> reply) \<Rightarrow> session \<Rightarrow> string list \<Rightarrow> bool \<times> reply list" where
  "sendViews h mk gs [] = (False, [])"
| "sendViews h mk gs (p # ps) =
     (case getPlayerView gs p of
        Inl e \<Rightarrow> (True, [])
      | Inr v \<Rightarrow>
          (let r = sendViews h mk gs ps
           in (fst r, (if playerId h = Some p then [mk v] else []) @ snd r)))"

definition finish :: "bool \<times> reply list \<Rightarrow> handler \<Rightarrow> world \<Rightarrow> result" where
  "finish r h w = \<lparr>thrown = fst r, sent = snd r, handler_of = h, world_of = w\<rparr>"

section \<open>The handler's methods\<close>

text \<open>
  \<open>getGameState\<close>: \<open>global.games?.[gameCode] || null\<close>. It gives \<open>null\<close> while \<open>global.games\<close>
  is \<open>undefined\<close> and for a key the object does not have; the stored session for an own
  key; and, once the object exists, the inherited member for the name of one. A member
  is not \<open>null\<close> and has no \<open>players\<close>: every method throws a TypeError on its first
  access to \<open>gameState.players\<close>.
\<close>

datatype lookup = NoGame | NotAGame | Game session

definition getGameState :: "world \<Rightarrow> string \<Rightarrow> lookup" where
  "getGameState w gc =
     (case getProperty (games w) gc of
        Own gameState \<Rightarrow> Game gameState
      | Inherited m \<Rightarrow> if storeExists w then NotAGame else NoGame
      | Undefined \<Rightarrow> NoGame)"

text \<open>\<open>storeGameState\<close>: \<open>global.games = global.games || {}; global.games[gameCode] = gameState\<close>.\<close>

definition storeGameState :: "string \<Rightarrow> session \<Rightarrow> world \<Rightarrow> world" where
  "storeGameState gc gameState w = w\<lparr>games := (games w)(gc \<mapsto> gameState), storeExists := True\<rparr>"

text \<open>\<open>createGame\<close>: no check of the name, and none of the generated code against the store.\<close>

definition createGame :: "env \<Rightarrow> handler \<Rightarrow> string \<Rightarrow> world \<Rightarrow> result" where
  "createGame e h playerName w =
     (let gc = rnd_code e;
          gameState = \<lparr>code = gc, players = [playerName],
                       teams_team1 = [], teams_team2 = [], hands = [], currentTurn = 0,
                       claimedSuits_team1 = [], claimedSuits_team2 = [],
                       host = playerName, started = False, created = now e\<rparr>
      in returns [GameCreated gc playerName]
           (h\<lparr>playerId := Some playerName, gameCode := Some gc\<rparr>)
           (storeGameState gc gameState w))"

definition joinGame :: "handler \<Rightarrow> string \<Rightarrow> string \<Rightarrow> world \<Rightarrow> result" where
  "joinGame h gc playerName w =
     (case getGameState w gc of
        NoGame \<Rightarrow> returns [ErrorMsg ''Game not found''] h w
      | NotAGame \<Rightarrow> throws [] h w
      | Game gameState \<Rightarrow>
          if playerName \<in> set (players gameState)
          then returns [ErrorMsg ''Name already taken''] h w
          else if length (players gameState) \<ge> 12
          then returns [ErrorMsg ''Game is full''] h w
          else
            (let gs' = gameState\<lparr>players := players gameState @ [playerName]\<rparr>
             in returns [PlayerJoined playerName (players gs')]
                  (h\<lparr>playerId := Some playerName, gameCode := Some gc\<rparr>)
                  (storeGameState gc gs' w)))"

definition assignTeams :: "env \<Rightarrow> handler \<Rightarrow> string \<Rightarrow> bool \<Rightarrow> world \<Rightarrow> result" where
  "assignTeams e h gc random w =
     (case getGameState w gc of
        NoGame \<Rightarrow> returns [] h w
      | NotAGame \<Rightarrow> throws [] h w
      | Game gameState \<Rightarrow>
          if length (players gameState) < 4
          then returns [ErrorMsg ''Need at least 4 players''] h w
          else
            (let ps = (if random then shuffle e (players gameState) else players gameState);
                 gs' = gameState\<lparr>teams_team1 := filterParity 0 0 ps,
                                  teams_team2 := filterParity 1 0 ps\<rparr>
             in returns [TeamsAssigned (teams_team1 gs') (teams_team2 gs')] h
                  (storeGameState gc gs' w)))"

text \<open>\<open>deck.slice(a, b)\<close> for \<open>0 \<le> a \<le> b\<close>; an end beyond the deck is cut off.\<close>

definition jsSlice :: "nat \<Rightarrow> nat \<Rightarrow> 'a list \<Rightarrow> 'a list" where
  "jsSlice a b xs = take (b - a) (drop a xs)"

text \<open>The dealing loop of \<open>startGame\<close>, from player number \<open>i\<close> on.\<close>

fun deal ::
  "string list \<Rightarrow> nat \<Rightarrow> nat \<Rightarrow> string list \<Rightarrow> (string \<times> string list) list
    \<Rightarrow> (string \<times> string list) list" where
  "deal deck cardsPerPlayer i [] hs = hs"
| "deal deck cardsPerPlayer i (player # ps) hs =
     deal deck cardsPerPlayer (Suc i) ps
       (AList.update player (jsSlice (i * cardsPerPlayer) ((i + 1) * cardsPerPlayer) deck) hs)"

text \<open>
  \<open>startGame\<close>. An inherited member passes the guard (it is not \<open>null\<close> and its \<open>started\<close> is
  \<open>undefined\<close>); the deck is made and sorted, and \<open>gameState.players.length\<close> throws.
\<close>

definition startGame :: "env \<Rightarrow> handler \<Rightarrow> string \<Rightarrow> world \<Rightarrow> result" where
  "startGame e h gc w =
     (case getGameState w gc of
        NoGame \<Rightarrow> returns [] h w
      | NotAGame \<Rightarrow> throws [] h w
      | Game gameState \<Rightarrow>
          if started gameState then returns [] h w
          else
            (let deck = shuffle e createDeck;
                 cardsPerPlayer = length deck div length (players gameState);
                 gs' = gameState\<lparr>hands := deal deck cardsPerPlayer 0 (players gameState)
                                              (hands gameState),
                                  currentTurn := 0, started := True\<rparr>
             in finish (sendViews h GameStarted gs' (players gs')) h
                  (storeGameState gc gs' w)))"

text \<open>
  \<open>askForCard\<close>. \<open>gameState.hands[name].includes\<close> throws when \<open>hands[name]\<close> is \<open>undefined\<close> and
  when it is an inherited member, which has no \<open>includes\<close>: it returns only for an own
  key of \<open>hands\<close>, which is what \<open>map_of\<close> reads.
\<close>

definition askForCard :: "handler \<Rightarrow> string \<Rightarrow> string \<Rightarrow> string \<Rightarrow> world \<Rightarrow> result" where
  "askForCard h gc target crd w =
     (case getGameState w gc of
        NoGame \<Rightarrow> returns [] h w
      | NotAGame \<Rightarrow> throws [] h w
      | Game gameState \<Rightarrow>
          (let asker = jsString (playerAt gameState) in
           case map_of (hands gameState) asker of
             None \<Rightarrow> throws [] h w
           | Some askerHand \<Rightarrow>
               if crd \<in> set askerHand
               then returns [ErrorMsg ''Can't ask for a card you have''] h w
               else
                 (case map_of (hands gameState) target of
                    None \<Rightarrow> throws [] h w
                  | Some targetHand \<Rightarrow>
                      if crd \<in> set targetHand
                      then
                        (let hs1 = AList.update target (filter (\<lambda>c. c \<noteq> crd) targetHand)
                                     (hands gameState)
                         in case map_of hs1 asker of
                              None \<Rightarrow> throws [] h
                                (w\<lparr>games := (games w)(gc \<mapsto> gameState\<lparr>hands := hs1\<rparr>)\<rparr>)
                            | Some ah \<Rightarrow>
                                (let gs' = gameState\<lparr>hands := AList.update asker (ah @ [crd]) hs1\<rparr>;
                                     logMessage = asker @ '' asked '' @ target @ '' for '' @ crd
                                                  @ '' - YES!''
                                 in finish (sendViews h (\<lambda>v. TurnUpdate v logMessage) gs'
                                              (players gs')) h
                                      (storeGameState gc gs' w)))
                      else
                        (let gs' = gameState\<lparr>currentTurn := indexOf (players gameState) target\<rparr>;
                             logMessage = asker @ '' asked '' @ target @ '' for '' @ crd
                                          @ '' - NO''
                         in finish (sendViews h (\<lambda>v. TurnUpdate v logMessage) gs'
                                      (players gs')) h
                              (storeGameState gc gs' w)))))"

text \<open>
  \<open>halfSuits[suit].length\<close>, read by \<open>makeClaim\<close>: \<open>None\<close> when \<open>halfSuits[suit]\<close> is
  \<open>undefined\<close>, where reading \<open>length\<close> throws; else the value of \<open>length\<close>, which is
  \<open>undefined\<close> (\<open>Some None\<close>) for the prototype object.
\<close>

definition suitLength :: "string \<Rightarrow> nat option option" where
  "suitLength suit =
     (case getProperty (map_of getHalfSuits) suit of
        Own suitCards \<Rightarrow> Some (Some (length suitCards))
      | Inherited (Function n) \<Rightarrow> Some (Some n)
      | Inherited Prototype \<Rightarrow> Some None
      | Undefined \<Rightarrow> None)"

text \<open>
  The loop of \<open>makeClaim\<close> that sets \<open>allCorrect\<close>, from the value \<open>ok\<close> on: \<open>break\<close> leaves the
  inner loop only, and \<open>allCorrect\<close> stays false once it is. \<open>hands[player]?.includes(card)\<close>
  is \<open>undefined\<close> for a player whose \<open>hands[player]\<close> is \<open>undefined\<close>; for an inherited member
  \<open>?.\<close> does not stop, \<open>includes\<close> is not a function and the call throws (\<open>None\<close>). A
  player with no card assigned is not looked up.
\<close>

fun allCorrectFrom ::
  "bool \<Rightarrow> (string \<times> string list) list \<Rightarrow> (string \<times> string list) list \<Rightarrow> bool option" where
  "allCorrectFrom ok hs [] = Some ok"
| "allCorrectFrom ok hs ((player, cards) # rest) =
     (if cards = [] then allCorrectFrom ok hs rest
      else (case getProperty (map_of hs) player of
              Inherited m \<Rightarrow> None
            | Undefined \<Rightarrow> allCorrectFrom False hs rest
            | Own h \<Rightarrow> allCorrectFrom (ok \<and> list_all (\<lambda>crd. crd \<in> set h) cards) hs rest))"

definition allCorrect ::
  "(string \<times> string list) list \<Rightarrow> (string \<times> string list) list \<Rightarrow> bool option" where
  "allCorrect hs assignments = allCorrectFrom True hs assignments"

definition firstPlayerTeam :: "session \<Rightarrow> (string \<times> string list) list \<Rightarrow> team" where
  "firstPlayerTeam gs assignments =
     (if includesOpt (teams_team1 gs)
           (case map fst assignments of [] \<Rightarrow> None | k # _ \<Rightarrow> Some k)
      then Team1 else Team2)"

definition allSameTeam :: "session \<Rightarrow> (string \<times> string list) list \<Rightarrow> bool" where
  "allSameTeam gs assignments =
     list_all (\<lambda>p. (p \<in> set (teams_team1 gs) \<and> firstPlayerTeam gs assignments = Team1) \<or>
                   (p \<in> set (teams_team2 gs) \<and> firstPlayerTeam gs assignments = Team2))
       (map fst assignments)"

text \<open>\<open>gameState.claimedSuits[t].push(suit)\<close>.\<close>

definition pushClaimed :: "team \<Rightarrow> string \<Rightarrow> session \<Rightarrow> session" where
  "pushClaimed t suit gs =
     (case t of
        Team1 \<Rightarrow> gs\<lparr>claimedSuits_team1 := claimedSuits_team1 gs @ [suit]\<rparr>
      | Team2 \<Rightarrow> gs\<lparr>claimedSuits_team2 := claimedSuits_team2 gs @ [suit]\<rparr>)"

text \<open>
  The loop that removes the cards of a successful claim. \<open>gameState.hands[player].filter\<close>
  throws for a player without an own key in \<open>hands\<close> (\<open>undefined\<close>, or an inherited member,
  which has no \<open>filter\<close>), and the hands filtered before stay filtered.
\<close>

fun removeCards ::
  "(string \<times> string list) list \<Rightarrow> (string \<times> string list) list
    \<Rightarrow> bool \<times> (string \<times> string list) list" where
  "removeCards [] hs = (False, hs)"
| "removeCards ((player, cards) # rest) hs =
     (case map_of hs player of
        None \<Rightarrow> (True, hs)
      | Some h \<Rightarrow> removeCards rest (AList.update player (filter (\<lambda>c. c \<notin> set cards) h) hs))"

text \<open>
  The validation of \<open>makeClaim\<close>, from \<open>if (assignedCards.length === suitCards.length)\<close>
  to the end of its \<open>else\<close>, given the value of \<open>suitCards.length\<close>: whether it threw, the
  session it leaves, \<open>logMessage\<close>.
\<close>

definition resolveClaim ::
  "session \<Rightarrow> string \<Rightarrow> (string \<times> string list) list \<Rightarrow> nat option
    \<Rightarrow> bool \<times> session \<times> string" where
  "resolveClaim gs suit assignments suitCardsLength =
     (let claimer = playerAt gs;
          claimerTeam = (if includesOpt (teams_team1 gs) claimer then Team1 else Team2);
          assignedCards = concat (map snd assignments)
      in if Some (length assignedCards) = suitCardsLength
         then
           (case allCorrect (hands gs) assignments of
              None \<Rightarrow> (True, gs, [])
            | Some True \<Rightarrow>
                if allSameTeam gs assignments
                then
                  (let gs1 = pushClaimed claimerTeam suit gs;
                       r = removeCards assignments (hands gs1)
                   in (fst r, gs1\<lparr>hands := snd r\<rparr>,
                       jsString claimer @ '' successfully claimed '' @ suit @ '' for ''
                         @ teamName claimerTeam @ ''!''))
                else
                  (let oppositeTeam = (if claimerTeam = Team1 then Team2 else Team1)
                   in (False, pushClaimed oppositeTeam suit gs,
                       jsString claimer @ '' failed claim on '' @ suit @ ''. ''
                         @ teamName oppositeTeam @ '' gets the suit!''))
            | Some False \<Rightarrow> (False, gs, jsString claimer @ '' incorrectly claimed '' @ suit))
         else (False, gs, jsString claimer @ '' failed to claim '' @ suit
                           @ '' - not all cards assigned''))"

text \<open>
  \<open>endGame\<close>: the broadcast (to this connection), and the timer that will delete
  \<open>gameState.code\<close> five minutes later.
\<close>

definition endGame :: "handler \<Rightarrow> session \<Rightarrow> world \<Rightarrow> result" where
  "endGame h gameState w =
     (let t1Score = length (claimedSuits_team1 gameState);
          t2Score = length (claimedSuits_team2 gameState);
          winner = (if t1Score > t2Score then ''Team 1''
                    else if t2Score > t1Score then ''Team 2'' else ''Tie'')
      in returns [GameEnded winner t1Score t2Score] h
           (w\<lparr>timers := timers w @ [code gameState]\<rparr>))"

text \<open>
  \<open>makeClaim\<close>. \<open>%\<close> is the remainder of the truncated division (\<open>smod\<close>); a session always
  has a player, so the divisor is not zero. The game-end path returns without
  \<open>storeGameState\<close>; the session was changed in place.
\<close>

definition makeClaim ::
  "handler \<Rightarrow> string \<Rightarrow> string \<Rightarrow> (string \<times> string list) list \<Rightarrow> world \<Rightarrow> result" where
  "makeClaim h gc suit assignments w =
     (case getGameState w gc of
        NoGame \<Rightarrow> returns [] h w
      | NotAGame \<Rightarrow> throws [] h w
      | Game gameState \<Rightarrow>
          (case suitLength suit of
             None \<Rightarrow> throws [] h w
           | Some suitCardsLength \<Rightarrow>
               (let r = resolveClaim gameState suit assignments suitCardsLength;
                    gs1 = fst (snd r);
                    logMessage = snd (snd r);
                    w1 = w\<lparr>games := (games w)(gc \<mapsto> gs1)\<rparr>
                in if fst r then throws [] h w1
                   else if length (claimedSuits_team1 gs1) + length (claimedSuits_team2 gs1) \<ge> 8
                   then endGame h gs1 w1
                   else
                     (let gs2 = gs1\<lparr>currentTurn :=
                                      (currentTurn gs1 + 1) smod int (length (players gs1))\<rparr>
                      in finish (sendViews h (\<lambda>v. TurnUpdate v logMessage) gs2 (players gs2)) h
                           (storeGameState gc gs2 w)))))"

text \<open>
  \<open>handleMessage\<close>: the \<open>switch\<close>, inside \<open>try\<close>. \<open>rejoinGame\<close> is not a method of the class,
  so calling it throws; so does \<open>JSON.parse\<close> on a text that is not JSON.
\<close>

definition handleMessage :: "env \<Rightarrow> handler \<Rightarrow> request \<Rightarrow> world \<Rightarrow> result" where
  "handleMessage e h m w =
     (let r = (case m of
                 CreateGame playerName \<Rightarrow> createGame e h playerName w
               | JoinGame gc playerName \<Rightarrow> joinGame h gc playerName w
               | AssignTeams gc random \<Rightarrow> assignTeams e h gc random w
               | StartGame gc \<Rightarrow> startGame e h gc w
               | AskForCard gc target crd \<Rightarrow> askForCard h gc target crd w
               | MakeClaim gc suit assignments \<Rightarrow> makeClaim h gc suit assignments w
               | Rejoin gc playerName \<Rightarrow> throws [] h w
               | UnknownType \<Rightarrow> returns [ErrorMsg ''Unknown message type''] h w
               | Unparseable \<Rightarrow> throws [] h w)
      in if thrown r
         then r\<lparr>thrown := False, sent := sent r @ [ErrorMsg ''Failed to process request'']\<rparr>
         else r)"

text \<open>A timer of \<open>endGame\<close> fires: \<open>deleteGameState\<close>.\<close>

definition fireTimer :: "string \<Rightarrow> world \<Rightarrow> world" where
  "fireTimer c w = w\<lparr>games := (games w)(c := None), timers := remove1 c (timers w)\<rparr>"

text \<open>
  The states of the server: nothing stored at first; then any connection handles any
  message, with whatever the random number generator gives (\<open>sort\<close> returns a permutation
  of its array), or a pending timer fires.
\<close>

definition initial :: world where
  "initial = \<lparr>games = Map.empty, storeExists = False, timers = []\<rparr>"

inductive reachable :: "world \<Rightarrow> bool" where
  reach_initial: "reachable initial"
| reach_message:
    "reachable w \<Longrightarrow> (\<forall>xs. mset (shuffle e xs) = mset xs)
      \<Longrightarrow> reachable (world_of (handleMessage e h m w))"
| reach_timer:
    "reachable w \<Longrightarrow> c \<in> set (timers w) \<Longrightarrow> reachable (fireTimer c w)"

section \<open>Notions used in the statements\<close>

text \<open>What \<open>askForCard\<close> leaves of a session.\<close>

definition afterAsk :: "session \<Rightarrow> string \<Rightarrow> string \<Rightarrow> session" where
  "afterAsk gs target crd =
     (case map_of (hands gs) (jsString (playerAt gs)) of
        None \<Rightarrow> gs
      | Some askerHand \<Rightarrow>
          if crd \<in> set askerHand then gs
          else
            (case map_of (hands gs) target of
               None \<Rightarrow> gs
             | Some targetHand \<Rightarrow>
                 if crd \<in> set targetHand
                 then gs\<lparr>hands := AList.update (jsString (playerAt gs)) (askerHand @ [crd])
                                    (AList.update target (filter (\<lambda>c. c \<noteq> crd) targetHand)
                                       (hands gs))\<rparr>
                 else gs\<lparr>currentTurn := indexOf (players gs) target\<rparr>))"

text \<open>What \<open>makeClaim\<close> leaves in the store, when the validation does not throw.\<close>

definition afterClaim :: "session \<Rightarrow> session" where
  "afterClaim gs1 =
     (if 8 \<le> length (claimedSuits_team1 gs1) + length (claimedSuits_team2 gs1) then gs1
      else gs1\<lparr>currentTurn := (currentTurn gs1 + 1) smod int (length (players gs1))\<rparr>)"

text \<open>The two lists of claimed half-suits of a session.\<close>

definition claimedLists :: "session \<Rightarrow> string list \<times> string list" where
  "claimedLists gs = (claimedSuits_team1 gs, claimedSuits_team2 gs)"

text \<open>No half-suit is claimed twice, and what is claimed is a half-suit of the table.\<close>

definition claimedOnce :: "session \<Rightarrow> bool" where
  "claimedOnce gs =
     (distinct (claimedSuits_team1 gs @ claimedSuits_team2 gs) \<and>
      set (claimedSuits_team1 gs @ claimedSuits_team2 gs) \<subseteq> fst ` set getHalfSuits)"

text \<open>
  A claim repeats when it names a half-suit that is already in one of the two lists of
  claimed half-suits of its session.
\<close>

definition repeatsClaim :: "request \<Rightarrow> world \<Rightarrow> bool" where
  "repeatsClaim m w =
     (case m of
        MakeClaim gc suit assignments \<Rightarrow>
          (case games w gc of
             None \<Rightarrow> False
           | Some gs \<Rightarrow> suit \<in> set (claimedSuits_team1 gs) \<union> set (claimedSuits_team2 gs))
      | _ \<Rightarrow> False)"

text \<open>A claim is off the table when it names none of the eight half-suits.\<close>

definition offTable :: "request \<Rightarrow> bool" where
  "offTable m =
     (case m of
        MakeClaim gc suit assignments \<Rightarrow> suit \<notin> set (map fst getHalfSuits)
      | _ \<Rightarrow> False)"

text \<open>The states reached when every claim names a half-suit of the table and none repeats.\<close>

inductive reachableNoRepeat :: "world \<Rightarrow> bool" where
  norepeat_initial: "reachableNoRepeat initial"
| norepeat_message:
    "reachableNoRepeat w \<Longrightarrow> (\<forall>xs. mset (shuffle e xs) = mset xs)
      \<Longrightarrow> \<not> offTable m \<Longrightarrow> \<not> repeatsClaim m w
      \<Longrightarrow> reachableNoRepeat (world_of (handleMessage e h m w))"
| norepeat_timer:
    "reachableNoRepeat w \<Longrightarrow> c \<in> set (timers w) \<Longrightarrow> reachableNoRepeat (fireTimer c w)"


text \<open>
  The cards that the removal loop of a successful claim takes out of the hands: from each
  named player's hand, in turn, the cards that \<open>filter\<close> drops; nothing from the first
  player without a hand on, where the loop throws.
\<close>

fun removedCards ::
  "(string \<times> string list) list \<Rightarrow> (string \<times> string list) list \<Rightarrow> string multiset" where
  "removedCards [] hs = {#}"
| "removedCards ((player, cards) # rest) hs =
     (case map_of hs player of
        None \<Rightarrow> {#}
      | Some h \<Rightarrow>
          mset (filter (\<lambda>c. c \<in> set cards) h)
          + removedCards rest (AList.update player (filter (\<lambda>c. c \<notin> set cards) h) hs))"

text \<open>
  Whether the validation of a claim reaches the removal loop, given the value of
  \<open>suitCards.length\<close>.
\<close>

definition claimRemoves ::
  "session \<Rightarrow> (string \<times> string list) list \<Rightarrow> nat option \<Rightarrow> bool" where
  "claimRemoves gs assignments suitCardsLength =
     (Some (length (concat (map snd assignments))) = suitCardsLength \<and>
      allCorrect (hands gs) assignments = Some True \<and> allSameTeam gs assignments)"

text \<open>
  The record of the cards removed by claims, for each game code: a new game starts with
  none, and a claim that reaches the removal loop adds what the loop removes.
\<close>

definition removedBy ::
  "env \<Rightarrow> request \<Rightarrow> world \<Rightarrow> (string \<Rightarrow> string multiset) \<Rightarrow> (string \<Rightarrow> string multiset)" where
  "removedBy e m w r =
     (case m of
        CreateGame playerName \<Rightarrow> r(rnd_code e := {#})
      | MakeClaim gc suit assignments \<Rightarrow>
          (case games w gc of
             None \<Rightarrow> r
           | Some gs \<Rightarrow>
               (case suitLength suit of
                  None \<Rightarrow> r
                | Some suitCardsLength \<Rightarrow>
                    if claimRemoves gs assignments suitCardsLength
                    then r(gc := r gc + removedCards assignments (hands gs))
                    else r))
      | _ \<Rightarrow> r)"

text \<open>The states of the server, each with the record of the cards removed so far.\<close>

inductive reachableWith :: "world \<Rightarrow> (string \<Rightarrow> string multiset) \<Rightarrow> bool" where
  with_initial: "reachableWith initial (\<lambda>gc. {#})"
| with_message:
    "reachableWith w r \<Longrightarrow> (\<forall>xs. mset (shuffle e xs) = mset xs)
      \<Longrightarrow> reachableWith (world_of (handleMessage e h m w)) (removedBy e m w r)"
| with_timer:
    "reachableWith w r \<Longrightarrow> c \<in> set (timers w) \<Longrightarrow> reachableWith (fireTimer c w) r"


section \<open>Example games\<close>

text \<open>
  A connection that has not created or joined a game, a random number generator whose
  \<open>sort\<close> leaves the array as it is, and the run of a list of messages.
\<close>

definition anon :: handler where
  "anon = \<lparr>playerId = None, gameCode = None\<rparr>"

definition demoEnv :: env where
  "demoEnv = \<lparr>rnd_code = ''FISH01'', now = 0, shuffle = (\<lambda>xs. xs)\<rparr>"

fun run :: "(env \<times> handler \<times> request) list \<Rightarrow> world \<Rightarrow> world" where
  "run [] w = w"
| "run ((e, h, m) # rest) w = run rest (world_of (handleMessage e h m w))"

definition play :: "request list \<Rightarrow> world" where
  "play ms = run (map (\<lambda>m. (demoEnv, anon, m)) ms) initial"

text \<open>Alice creates the game, the others join, teams are assigned in join order, the cards are dealt.\<close>

definition lobbyOf :: "string list \<Rightarrow> request list" where
  "lobbyOf others = CreateGame ''Alice'' # map (JoinGame ''FISH01'') others"

definition startedOf :: "string list \<Rightarrow> request list" where
  "startedOf others = lobbyOf others @ [AssignTeams ''FISH01'' False, StartGame ''FISH01'']"

definition four :: "string list" where
  "four = [''Bob'', ''Carol'', ''Dave'']"


definition six :: "string list" where
  "six = [''Bob'', ''Carol'', ''Dave'', ''Eve'', ''Frank'']"

definition eleven :: "string list" where
  "eleven = [''Bob'', ''Carol'', ''Dave'', ''Eve'', ''Frank'', ''Grace'', ''Heidi'', ''Ivan'',
             ''Judy'', ''Ken'', ''Leo'']"

definition lobbyThree :: world where
  "lobbyThree = play (lobbyOf [''Bob'', ''Carol''])"

definition lobbyFour :: world where
  "lobbyFour = play (lobbyOf four)"

definition lobbyTwelve :: world where
  "lobbyTwelve = play (lobbyOf eleven)"

definition startedFour :: world where
  "startedFour = play (startedOf four)"

text \<open>Eve joins after the cards were dealt: she is a player without a hand and without a team.\<close>

definition lateJoin :: world where
  "lateJoin = play (startedOf four @ [JoinGame ''FISH01'' ''Eve''])"


definition startedSix :: world where
  "startedSix = play (startedOf six)"

definition eightClaims :: "request list" where
  "eightClaims =
     [MakeClaim ''FISH01'' ''low-hearts'' [(''Alice'', map (\<lambda>r. r @ heart) lowRanks)],
      MakeClaim ''FISH01'' ''low-diamonds'' [(''Bob'', map (\<lambda>r. r @ diamond) lowRanks)],
      MakeClaim ''FISH01'' ''low-clubs'' [(''Carol'', map (\<lambda>r. r @ club) lowRanks)],
      MakeClaim ''FISH01'' ''low-spades'' [(''Dave'', map (\<lambda>r. r @ spade) lowRanks)],
      MakeClaim ''FISH01'' ''high-hearts'' [(''Alice'', map (\<lambda>r. r @ heart) highRanks)],
      MakeClaim ''FISH01'' ''high-diamonds'' [(''Bob'', map (\<lambda>r. r @ diamond) highRanks)],
      MakeClaim ''FISH01'' ''high-clubs'' [(''Carol'', map (\<lambda>r. r @ club) highRanks)],
      MakeClaim ''FISH01'' ''high-spades'' [(''Dave'', map (\<lambda>r. r @ spade) highRanks)]]"

definition endedFour :: world where
  "endedFour = play (startedOf four @ eightClaims)"

text \<open>The session of the started game of four, written out.\<close>

definition dealtFour :: session where
  "dealtFour =
     \<lparr>code = ''FISH01'', players = [''Alice'', ''Bob'', ''Carol'', ''Dave''],
      teams_team1 = [''Alice'', ''Carol''], teams_team2 = [''Bob'', ''Dave''],
      hands = [(''Alice'', map (\<lambda>r. r @ heart) (lowRanks @ highRanks)),
               (''Bob'', map (\<lambda>r. r @ diamond) (lowRanks @ highRanks)),
               (''Carol'', map (\<lambda>r. r @ club) (lowRanks @ highRanks)),
               (''Dave'', map (\<lambda>r. r @ spade) (lowRanks @ highRanks))],
      currentTurn = 0, claimedSuits_team1 = [], claimedSuits_team2 = [],
      host = ''Alice'', started = True, created = 0\<rparr>"


text \<open>
  In the started game of six the high hearts are split between Alice and Bob, who are on
  different teams. This claim names both, each for the cards held.
\<close>

definition splitClaim :: request where
  "splitClaim =
     MakeClaim ''FISH01'' ''high-hearts''
       [(''Alice'', map (\<lambda>r. r @ heart) [''9'', ''10'']),
        (''Bob'', map (\<lambda>r. r @ heart) [''J'', ''Q'', ''K'', ''A''])]"

definition claimedTwice :: world where
  "claimedTwice = play (startedOf six @ replicate 2 splitClaim)"

definition claimedNineTimes :: world where
  "claimedNineTimes = play (startedOf six @ replicate 9 splitClaim)"

text \<open>
  No message of the list is a claim off the table or repeats a claim, in the state it is
  handled in.
\<close>

fun noRepeats :: "(env \<times> handler \<times> request) list \<Rightarrow> world \<Rightarrow> bool" where
  "noRepeats [] w = True"
| "noRepeats ((e, h, m) # rest) w =
     (\<not> offTable m \<and> \<not> repeatsClaim m w \<and>
      noRepeats rest (world_of (handleMessage e h m w)))"




section \<open>Looking up a game\<close>

text \<open>
  The three results of \<open>getGameState\<close>: the session stored under the code; \<open>null\<close> when
  nothing is stored under it, unless the store exists and the code names an inherited
  member; that member otherwise.
\<close>

lemma getGameState_stored: "games w gc = Some gs \<Longrightarrow> getGameState w gc = Game gs"
  by (simp add: getGameState_def getProperty_def)

lemma getGameState_null:
  assumes "games w gc = None" and "storeExists w \<longrightarrow> gc \<notin> set (map fst objectPrototype)"
  shows "getGameState w gc = NoGame"
proof (cases "map_of objectPrototype gc")
  case None
  with assms(1) show ?thesis by (simp add: getGameState_def getProperty_def)
next
  case (Some m)
  then have "gc \<in> set (map fst objectPrototype)"
    by (metis map_of_eq_None_iff option.distinct(1) set_map)
  with assms(2) have "\<not> storeExists w" by blast
  with assms(1) Some show ?thesis by (simp add: getGameState_def getProperty_def)
qed

lemma getGameState_inherited:
  assumes "games w gc = None" and "storeExists w" and "gc \<in> set (map fst objectPrototype)"
  shows "getGameState w gc = NotAGame"
proof -
  from assms(3) obtain m where "map_of objectPrototype gc = Some m"
    by (metis map_of_eq_None_iff not_None_eq set_map)
  with assms(1,2) show ?thesis by (simp add: getGameState_def getProperty_def)
qed

lemma games_storeGameState:
  "games (storeGameState gc gs w) = (games w)(gc \<mapsto> gs)"
  by (simp add: storeGameState_def)

section \<open>Creating and joining a game\<close>

text \<open>
  Claim C9, as amended. \<open>createGame\<close> does not look at the name: for every name, the empty
  one too, it stores a new lobby session under the generated code, with that name as the
  only player and as the host, binds the connection to it and replies \<open>gameCreated\<close>.
\<close>

theorem createGame_accepts_any_name:
  "handleMessage e h (CreateGame playerName) w =
     returns [GameCreated (rnd_code e) playerName]
       (h\<lparr>playerId := Some playerName, gameCode := Some (rnd_code e)\<rparr>)
       (w\<lparr>games := (games w)(rnd_code e \<mapsto>
            \<lparr>code = rnd_code e, players = [playerName],
             teams_team1 = [], teams_team2 = [], hands = [], currentTurn = 0,
             claimedSuits_team1 = [], claimedSuits_team2 = [],
             host = playerName, started = False, created = now e\<rparr>),
          storeExists := True\<rparr>)"
  by (simp add: handleMessage_def createGame_def storeGameState_def returns_def Let_def)

text \<open>
  Claim C9 fails as stated: with the empty name, on the empty store, the reply is
  \<open>gameCreated\<close> and a session whose only player is the empty name is stored.
\<close>

theorem createGame_empty_name_counterexample:
  "sent (handleMessage demoEnv anon (CreateGame []) initial) = [GameCreated ''FISH01'' []] \<and>
   map_option players
     (games (world_of (handleMessage demoEnv anon (CreateGame []) initial)) ''FISH01'')
     = Some [[]]"
  by code_simp

text \<open>
  Claim C4, as amended. \<open>joinGame\<close> replies "Game not found" when no session is stored
  under the code (a code that names a member every object inherits being left aside,
  once the store exists); else "Name already taken" when the name is a player; else
  "Game is full" when there are 12 players or more; in these three cases nothing
  changes. In every other case, whether the game has started or not, the name is
  appended to \<open>players\<close>, the connection is bound to it and \<open>playerJoined\<close> is sent.
\<close>

theorem joinGame_cases:
  "(games w gc = None \<and> (storeExists w \<longrightarrow> gc \<notin> set (map fst objectPrototype)) \<longrightarrow>
      handleMessage e h (JoinGame gc name) w = returns [ErrorMsg ''Game not found''] h w) \<and>
   (\<forall>gs. games w gc = Some gs \<longrightarrow>
      (name \<in> set (players gs) \<longrightarrow>
         handleMessage e h (JoinGame gc name) w = returns [ErrorMsg ''Name already taken''] h w) \<and>
      (name \<notin> set (players gs) \<and> 12 \<le> length (players gs) \<longrightarrow>
         handleMessage e h (JoinGame gc name) w = returns [ErrorMsg ''Game is full''] h w) \<and>
      (name \<notin> set (players gs) \<and> length (players gs) < 12 \<longrightarrow>
         handleMessage e h (JoinGame gc name) w =
           returns [PlayerJoined name (players gs @ [name])]
             (h\<lparr>playerId := Some name, gameCode := Some gc\<rparr>)
             (w\<lparr>games := (games w)(gc \<mapsto> gs\<lparr>players := players gs @ [name]\<rparr>),
                storeExists := True\<rparr>)))"
proof (intro conjI allI impI)
  assume "games w gc = None \<and> (storeExists w \<longrightarrow> gc \<notin> set (map fst objectPrototype))"
  then have "getGameState w gc = NoGame" by (simp add: getGameState_null)
  then show "handleMessage e h (JoinGame gc name) w = returns [ErrorMsg ''Game not found''] h w"
    by (simp add: handleMessage_def joinGame_def returns_def)
next
  fix gs
  assume "games w gc = Some gs" and "name \<in> set (players gs)"
  then show "handleMessage e h (JoinGame gc name) w
               = returns [ErrorMsg ''Name already taken''] h w"
    by (simp add: handleMessage_def joinGame_def getGameState_stored returns_def)
next
  fix gs
  assume "games w gc = Some gs" and "name \<notin> set (players gs) \<and> 12 \<le> length (players gs)"
  then show "handleMessage e h (JoinGame gc name) w = returns [ErrorMsg ''Game is full''] h w"
    by (simp add: handleMessage_def joinGame_def getGameState_stored returns_def)
next
  fix gs
  assume "games w gc = Some gs" and "name \<notin> set (players gs) \<and> length (players gs) < 12"
  then show "handleMessage e h (JoinGame gc name) w =
           returns [PlayerJoined name (players gs @ [name])]
             (h\<lparr>playerId := Some name, gameCode := Some gc\<rparr>)
             (w\<lparr>games := (games w)(gc \<mapsto> gs\<lparr>players := players gs @ [name]\<rparr>),
                storeExists := True\<rparr>)"
    by (simp add: handleMessage_def joinGame_def getGameState_stored storeGameState_def
          returns_def Let_def)
qed

text \<open>
  The cases on examples: no store yet; a code that is not stored; Bob joins a second
  time; a thirteenth player; Eve joins the game of four after it has started.
\<close>

theorem joinGame_cases_witness:
  "games initial ''FISH01'' = None \<and> \<not> storeExists initial \<and>
   handleMessage demoEnv anon (JoinGame ''FISH01'' ''Eve'') initial
     = returns [ErrorMsg ''Game not found''] anon initial \<and>
   games startedFour ''FISH02'' = None \<and> ''FISH02'' \<notin> set (map fst objectPrototype) \<and>
   handleMessage demoEnv anon (JoinGame ''FISH02'' ''Eve'') startedFour
     = returns [ErrorMsg ''Game not found''] anon startedFour \<and>
   map_option players (games startedFour ''FISH01'') = Some [''Alice'', ''Bob'', ''Carol'', ''Dave''] \<and>
   handleMessage demoEnv anon (JoinGame ''FISH01'' ''Bob'') startedFour
     = returns [ErrorMsg ''Name already taken''] anon startedFour \<and>
   map_option (\<lambda>s. length (players s)) (games lobbyTwelve ''FISH01'') = Some 12 \<and>
   map_option (\<lambda>s. ''Mallory'' \<in> set (players s)) (games lobbyTwelve ''FISH01'') = Some False \<and>
   handleMessage demoEnv anon (JoinGame ''FISH01'' ''Mallory'') lobbyTwelve
     = returns [ErrorMsg ''Game is full''] anon lobbyTwelve \<and>
   sent (handleMessage demoEnv anon (JoinGame ''FISH01'' ''Eve'') startedFour)
     = [PlayerJoined ''Eve'' [''Alice'', ''Bob'', ''Carol'', ''Dave'', ''Eve'']]"
proof -
  have n: "games initial ''FISH01'' = None"
    by (simp add: initial_def)
  have s: "\<not> storeExists initial"
    by (simp add: initial_def)
  have n2: "games startedFour ''FISH02'' = None"
    by code_simp
  have o2: "''FISH02'' \<notin> set (map fst objectPrototype)"
    by (simp add: objectPrototype_def)
  have p4: "map_option players (games startedFour ''FISH01'')
              = Some [''Alice'', ''Bob'', ''Carol'', ''Dave'']"
    by code_simp
  then obtain gs where gs: "games startedFour ''FISH01'' = Some gs"
    and ps: "players gs = [''Alice'', ''Bob'', ''Carol'', ''Dave'']"
    by auto
  have l12: "map_option (\<lambda>s. length (players s)) (games lobbyTwelve ''FISH01'') = Some 12"
    by code_simp
  have m12: "map_option (\<lambda>s. ''Mallory'' \<in> set (players s)) (games lobbyTwelve ''FISH01'')
               = Some False"
    by code_simp
  from l12 m12 obtain gt where gt: "games lobbyTwelve ''FISH01'' = Some gt"
    and lt: "length (players gt) = 12" and mt: "''Mallory'' \<notin> set (players gt)"
    by auto
  have c1: "handleMessage demoEnv anon (JoinGame ''FISH01'' ''Eve'') initial
              = returns [ErrorMsg ''Game not found''] anon initial"
    using joinGame_cases [of initial "''FISH01''" demoEnv anon "''Eve''"] n s by simp
  have c0: "handleMessage demoEnv anon (JoinGame ''FISH02'' ''Eve'') startedFour
              = returns [ErrorMsg ''Game not found''] anon startedFour"
    using joinGame_cases [of startedFour "''FISH02''" demoEnv anon "''Eve''"] n2 o2 by simp
  have c2: "handleMessage demoEnv anon (JoinGame ''FISH01'' ''Bob'') startedFour
              = returns [ErrorMsg ''Name already taken''] anon startedFour"
    using joinGame_cases [of startedFour "''FISH01''" demoEnv anon "''Bob''"] gs ps by simp
  have c3: "handleMessage demoEnv anon (JoinGame ''FISH01'' ''Mallory'') lobbyTwelve
              = returns [ErrorMsg ''Game is full''] anon lobbyTwelve"
    using joinGame_cases [of lobbyTwelve "''FISH01''" demoEnv anon "''Mallory''"] gt lt mt
    by simp
  have c4: "sent (handleMessage demoEnv anon (JoinGame ''FISH01'' ''Eve'') startedFour)
              = [PlayerJoined ''Eve'' [''Alice'', ''Bob'', ''Carol'', ''Dave'', ''Eve'']]"
    using joinGame_cases [of startedFour "''FISH01''" demoEnv anon "''Eve''"] gs ps
    by (simp add: returns_def)
  from n s n2 o2 p4 l12 m12 c1 c0 c2 c3 c4 show ?thesis by simp
qed

text \<open>
  Claim C4 fails as stated: the game of four has started, and Eve's \<open>joinGame\<close> is
  answered with \<open>playerJoined\<close> and makes her the fifth player.
\<close>

theorem joinGame_started_counterexample:
  "map_option started (games startedFour ''FISH01'') = Some True \<and>
   sent (handleMessage demoEnv anon (JoinGame ''FISH01'' ''Eve'') startedFour)
     = [PlayerJoined ''Eve'' [''Alice'', ''Bob'', ''Carol'', ''Dave'', ''Eve'']] \<and>
   map_option players
     (games (world_of (handleMessage demoEnv anon (JoinGame ''FISH01'' ''Eve'') startedFour))
        ''FISH01'')
     = Some [''Alice'', ''Bob'', ''Carol'', ''Dave'', ''Eve'']"
  by code_simp

text \<open>
  Outside the claim: once the store exists, a code that names an inherited member and has
  no session is not answered with "Game not found". \<open>getGameState\<close> returns the member,
  \<open>gameState.players.includes\<close> throws, nothing changes and the reply is "Failed to
  process request".
\<close>

lemma joinGame_inherited_code:
  assumes "games w gc = None" and "storeExists w" and "gc \<in> set (map fst objectPrototype)"
  shows "handleMessage e h (JoinGame gc name) w
           = returns [ErrorMsg ''Failed to process request''] h w"
  using getGameState_inherited [OF assms]
  by (simp add: handleMessage_def joinGame_def returns_def throws_def)

lemma joinGame_inherited_code_example:
  "games startedFour ''constructor'' = None \<and>
   handleMessage demoEnv anon (JoinGame ''constructor'' ''Eve'') startedFour
     = returns [ErrorMsg ''Failed to process request''] anon startedFour"
proof -
  have n: "games startedFour ''constructor'' = None" by code_simp
  have s: "storeExists startedFour" by code_simp
  have o: "''constructor'' \<in> set (map fst objectPrototype)"
    by (simp add: objectPrototype_def)
  from joinGame_inherited_code [OF n s o] n show ?thesis by simp
qed

section \<open>Assigning teams\<close>

text \<open>The two filters of \<open>assignTeams\<close> pick the even and the odd positions.\<close>

lemma filterParity_nths: "filterParity r i xs = nths xs {j. (j + i) mod 2 = r}"
proof (induction xs arbitrary: i)
  case Nil
  then show ?case by simp
next
  case (Cons x xs)
  have "{j. Suc j mod 2 = r} = {j. (j + Suc 0) mod 2 = r}" by simp
  then show ?case using Cons[of "Suc i"] by (simp add: nths_Cons)
qed

lemma evens_filterParity: "filterParity 0 0 xs = nths xs {j. even j}"
  by (simp add: filterParity_nths even_iff_mod_2_eq_zero)

lemma odds_filterParity: "filterParity (Suc 0) 0 xs = nths xs {j. odd j}"
  by (simp add: filterParity_nths odd_iff_mod_2_eq_one)

text \<open>
  \<open>assignTeams\<close> does not look at \<open>started\<close>. With a session of fewer than 4 players it
  replies "Need at least 4 players" and changes nothing. With 4 players or more, whatever
  \<open>started\<close> and \<open>hands\<close> are, \<open>teams.team1\<close> becomes the players at the even positions
  and \<open>teams.team2\<close> those at the odd positions (of the player list, shuffled first when
  \<open>random\<close> is set), nothing else changes, and \<open>teamsAssigned\<close> is sent. When
  \<open>getGameState\<close> gives \<open>null\<close> it returns without a reply and without a change.
\<close>

lemma assignTeams_cases:
  "(games w gc = None \<and> (storeExists w \<longrightarrow> gc \<notin> set (map fst objectPrototype)) \<longrightarrow>
      handleMessage e h (AssignTeams gc random) w = returns [] h w) \<and>
   (\<forall>gs. games w gc = Some gs \<longrightarrow>
      (length (players gs) < 4 \<longrightarrow>
         handleMessage e h (AssignTeams gc random) w
           = returns [ErrorMsg ''Need at least 4 players''] h w) \<and>
      (4 \<le> length (players gs) \<longrightarrow>
         (let ps = (if random then shuffle e (players gs) else players gs);
              t1 = nths ps {i. even i};
              t2 = nths ps {i. odd i}
          in handleMessage e h (AssignTeams gc random) w
               = returns [TeamsAssigned t1 t2] h
                   (w\<lparr>games := (games w)(gc \<mapsto> gs\<lparr>teams_team1 := t1, teams_team2 := t2\<rparr>),
                      storeExists := True\<rparr>))))"
proof (intro conjI allI impI)
  assume "games w gc = None \<and> (storeExists w \<longrightarrow> gc \<notin> set (map fst objectPrototype))"
  then have "getGameState w gc = NoGame" by (simp add: getGameState_null)
  then show "handleMessage e h (AssignTeams gc random) w = returns [] h w"
    by (simp add: handleMessage_def assignTeams_def returns_def)
next
  fix gs
  assume "games w gc = Some gs" and "length (players gs) < 4"
  then show "handleMessage e h (AssignTeams gc random) w
               = returns [ErrorMsg ''Need at least 4 players''] h w"
    by (simp add: handleMessage_def assignTeams_def getGameState_stored returns_def)
next
  fix gs
  assume "games w gc = Some gs" and "4 \<le> length (players gs)"
  then show "let ps = (if random then shuffle e (players gs) else players gs);
              t1 = nths ps {i. even i};
              t2 = nths ps {i. odd i}
          in handleMessage e h (AssignTeams gc random) w
               = returns [TeamsAssigned t1 t2] h
                   (w\<lparr>games := (games w)(gc \<mapsto> gs\<lparr>teams_team1 := t1, teams_team2 := t2\<rparr>),
                      storeExists := True\<rparr>)"
    by (simp add: handleMessage_def assignTeams_def getGameState_stored storeGameState_def
          returns_def Let_def evens_filterParity odds_filterParity)
qed

text \<open>
  The started game of four that Eve joined late: the cards are dealt, and the teams are
  assigned once more, now with Eve.
\<close>

lemma assignTeams_after_start_example:
  "map_option (\<lambda>s. (started s, players s, teams_team1 s, teams_team2 s,
                     map (\<lambda>(p, h). (p, length h)) (hands s)))
       (games lateJoin ''FISH01'')
     = Some (True, [''Alice'', ''Bob'', ''Carol'', ''Dave'', ''Eve''],
             [''Alice'', ''Carol''], [''Bob'', ''Dave''],
             [(''Alice'', 12), (''Bob'', 12), (''Carol'', 12), (''Dave'', 12)]) \<and>
   sent (handleMessage demoEnv anon (AssignTeams ''FISH01'' False) lateJoin)
     = [TeamsAssigned [''Alice'', ''Carol'', ''Eve''] [''Bob'', ''Dave'']] \<and>
   map_option (\<lambda>s. (teams_team1 s, teams_team2 s))
       (games (world_of (handleMessage demoEnv anon (AssignTeams ''FISH01'' False) lateJoin))
          ''FISH01'')
     = Some ([''Alice'', ''Carol'', ''Eve''], [''Bob'', ''Dave''])"
  by code_simp

text \<open>
  Claim C10 says that an absent session is silently ignored, with no reply, and that
  \<open>assignTeams\<close> replies with an error only when the player count is below 4. The code
  returns silently when \<open>getGameState\<close> gives \<open>null\<close>, but for the code \<open>constructor\<close>, under
  which no session is stored, \<open>getGameState\<close> gives the inherited function:
  \<open>gameState.players.length\<close> throws and the reply is the error "Failed to process
  request". Here the store is that of the started game of four.
\<close>

theorem assignTeams_inherited_code:
  "games startedFour ''constructor'' = None \<and>
   sent (handleMessage demoEnv anon (AssignTeams ''constructor'' False) startedFour)
     = [ErrorMsg ''Failed to process request'']"
  by code_simp

section \<open>Starting the game\<close>

text \<open>
  \<open>startGame\<close> on a code for which \<open>getGameState\<close> gives \<open>null\<close>, or with a session that has
  started, returns at once: nothing is sent (no broadcast, no error) and nothing changes.
\<close>

lemma startGame_silent:
  assumes "(games w gc = None \<and> (storeExists w \<longrightarrow> gc \<notin> set (map fst objectPrototype))) \<or>
           (\<exists>gs. games w gc = Some gs \<and> started gs)"
  shows "handleMessage e h (StartGame gc) w = returns [] h w"
  using assms
proof
  assume "games w gc = None \<and> (storeExists w \<longrightarrow> gc \<notin> set (map fst objectPrototype))"
  then have "getGameState w gc = NoGame" by (simp add: getGameState_null)
  then show ?thesis by (simp add: handleMessage_def startGame_def returns_def)
next
  assume "\<exists>gs. games w gc = Some gs \<and> started gs"
  then obtain gs where "games w gc = Some gs" and "started gs" by blast
  then show ?thesis
    by (simp add: handleMessage_def startGame_def getGameState_stored returns_def)
qed

text \<open>
  The dealing loop gives the player at position \<open>j\<close> the cards of the deck from position
  \<open>(i + j) * n\<close> up to \<open>(i + j + 1) * n\<close>, and leaves every other key of \<open>hands\<close> as it is.
\<close>

lemma deal_others: "p \<notin> set ps \<Longrightarrow> map_of (deal deck n i ps hs) p = map_of hs p"
  by (induction ps arbitrary: i hs) (auto simp add: update_conv')

lemma deal_player:
  assumes "distinct ps" and "j < length ps"
  shows "map_of (deal deck n i ps hs) (ps ! j) = Some (take n (drop ((i + j) * n) deck))"
  using assms
proof (induction ps arbitrary: i j hs)
  case Nil
  then show ?case by simp
next
  case (Cons p ps)
  show ?case
  proof (cases j)
    case 0
    from Cons.prems have "p \<notin> set ps" by simp
    from deal_others [OF this] 0 show ?thesis
      by (simp add: update_conv' jsSlice_def)
  next
    case (Suc k)
    with Cons.prems have d: "distinct ps" and k: "k < length ps" by simp_all
    from Cons.IH [OF d k, of "Suc i"] Suc show ?thesis by simp
  qed
qed

text \<open>
  \<open>startGame\<close> on a session that has not started deals: afterwards the session is started,
  the turn is the first player's, and the player at position \<open>j\<close> holds the cards of the
  shuffled deck from position \<open>j * n\<close> up to \<open>(j + 1) * n\<close>, where \<open>n\<close> is 48 divided by the
  number of players, rounded down. Each player gets the view of it.
\<close>

lemma startGame_deals:
  assumes "games w gc = Some gs" and "\<not> started gs" and "distinct (players gs)"
  shows "\<exists>gs'. games (world_of (handleMessage e h (StartGame gc) w)) gc = Some gs' \<and>
           started gs' \<and> currentTurn gs' = 0 \<and> players gs' = players gs \<and>
           (\<forall>j < length (players gs).
              map_of (hands gs') (players gs ! j)
                = Some (take (length (shuffle e createDeck) div length (players gs))
                          (drop (j * (length (shuffle e createDeck) div length (players gs)))
                             (shuffle e createDeck))))"
proof -
  let ?deck = "shuffle e createDeck"
  let ?n = "length ?deck div length (players gs)"
  let ?gs' = "gs\<lparr>hands := deal ?deck ?n 0 (players gs) (hands gs),
                  currentTurn := 0, started := True\<rparr>"
  have "games (world_of (handleMessage e h (StartGame gc) w)) gc = Some ?gs'"
    using assms(1,2)
    by (simp add: handleMessage_def startGame_def getGameState_stored storeGameState_def
          finish_def Let_def)
  moreover have "\<forall>j < length (players gs).
      map_of (hands ?gs') (players gs ! j) = Some (take ?n (drop (j * ?n) ?deck))"
    using deal_player [OF assms(3), of _ ?deck ?n 0 "hands gs"] by simp
  ultimately show ?thesis by simp
qed

text \<open>
  After a \<open>startGame\<close> on a code under which a session is stored, the session is started:
  a second \<open>startGame\<close> on the code returns at once, whatever the random number generator
  and the connection are.
\<close>

lemma startGame_twice:
  assumes "games w gc = Some gs"
  shows "handleMessage e' h' (StartGame gc) (world_of (handleMessage e h (StartGame gc) w))
           = returns [] h' (world_of (handleMessage e h (StartGame gc) w))"
proof -
  let ?w' = "world_of (handleMessage e h (StartGame gc) w)"
  have "\<exists>gs'. games ?w' gc = Some gs' \<and> started gs'"
    using assms
    by (cases "started gs")
       (simp_all add: handleMessage_def startGame_def getGameState_stored storeGameState_def
          returns_def finish_def Let_def)
  then show ?thesis by (simp add: startGame_silent)
qed

text \<open>The lobby of four, started twice: the first call deals, the second does nothing.\<close>

lemma startGame_twice_example:
  "map_option started (games lobbyFour ''FISH01'') = Some False \<and>
   map_option (\<lambda>s. (started s, map (\<lambda>(p, h). (p, length h)) (hands s)))
       (games (world_of (handleMessage demoEnv anon (StartGame ''FISH01'') lobbyFour)) ''FISH01'')
     = Some (True, [(''Alice'', 12), (''Bob'', 12), (''Carol'', 12), (''Dave'', 12)]) \<and>
   handleMessage demoEnv anon (StartGame ''FISH01'')
       (world_of (handleMessage demoEnv anon (StartGame ''FISH01'') lobbyFour))
     = returns [] anon (world_of (handleMessage demoEnv anon (StartGame ''FISH01'') lobbyFour))"
proof -
  have l4: "map_option started (games lobbyFour ''FISH01'') = Some False"
    by code_simp
  then obtain g0 where g0: "games lobbyFour ''FISH01'' = Some g0"
    by auto
  have d: "map_option (\<lambda>s. (started s, map (\<lambda>(p, h). (p, length h)) (hands s)))
       (games (world_of (handleMessage demoEnv anon (StartGame ''FISH01'') lobbyFour)) ''FISH01'')
     = Some (True, [(''Alice'', 12), (''Bob'', 12), (''Carol'', 12), (''Dave'', 12)])"
    by code_simp
  from l4 d startGame_twice [OF g0, of demoEnv anon demoEnv anon] show ?thesis by simp
qed

text \<open>
  Claim C7 says that \<open>startGame\<close> on an absent code is a silent no-op that raises no error.
  The code returns silently when \<open>getGameState\<close> gives \<open>null\<close>, but for the code \<open>toString\<close>,
  under which no session is stored, \<open>getGameState\<close> gives the inherited function: it is
  not \<open>null\<close> and its \<open>started\<close> is \<open>undefined\<close>, so the guard lets it pass;
  \<open>gameState.players.length\<close> throws and the reply is the error "Failed to process
  request". Here the store is that of the started game of four; a second such call is
  answered in the same way.
\<close>

theorem startGame_inherited_code:
  "games startedFour ''toString'' = None \<and>
   sent (handleMessage demoEnv anon (StartGame ''toString'') startedFour)
     = [ErrorMsg ''Failed to process request''] \<and>
   sent (handleMessage demoEnv anon (StartGame ''toString'')
           (world_of (handleMessage demoEnv anon (StartGame ''toString'') startedFour)))
     = [ErrorMsg ''Failed to process request'']"
  by code_simp

section \<open>Asking for a card\<close>





section \<open>Making a claim\<close>

text \<open>
  Every half-suit of the table has six cards, which is what \<open>suitCards.length\<close> is for its
  name; \<open>%\<close> on numbers that are not negative.
\<close>

lemma halfSuit_length: "map_of getHalfSuits suit = Some suitCards \<Longrightarrow> length suitCards = 6"
  by (auto simp add: getHalfSuits_def lowRanks_def highRanks_def split: if_splits)

lemma suitLength_table:
  assumes "map_of getHalfSuits suit = Some suitCards"
  shows "suitLength suit = Some (Some (length suitCards))"
  using assms by (simp add: suitLength_def getProperty_def)

lemma smod_nonneg: "0 \<le> (a::int) \<Longrightarrow> 0 \<le> b \<Longrightarrow> a smod b = a mod b"
  by (cases "a = 0") (simp_all add: signed_modulo_int_def)

text \<open>
  What \<open>makeClaim\<close> stores, in terms of its validation; other sessions are not touched.
\<close>

lemma makeClaim_stored:
  assumes "games w gc = Some gs" and "suitLength suit = Some n"
  shows "games (world_of (handleMessage e h (MakeClaim gc suit assignments) w)) gc =
           Some (if fst (resolveClaim gs suit assignments n)
                 then fst (snd (resolveClaim gs suit assignments n))
                 else afterClaim (fst (snd (resolveClaim gs suit assignments n))))"
  using assms
  by (simp add: handleMessage_def makeClaim_def getGameState_stored storeGameState_def
        afterClaim_def endGame_def returns_def throws_def finish_def Let_def)

lemma makeClaim_others:
  "gc' \<noteq> gc \<Longrightarrow>
   games (world_of (handleMessage e h (MakeClaim gc suit assignments) w)) gc' = games w gc'"
  by (simp add: handleMessage_def makeClaim_def storeGameState_def endGame_def returns_def
        throws_def finish_def Let_def split: option.splits lookup.splits)

text \<open>
  The loop leaves \<open>allCorrect\<close> true exactly when every assigned card is in the hand of the
  player it is assigned to. Two named players on different teams make \<open>allSameTeam\<close>
  false, when no player is on both teams.
\<close>

lemma allCorrectFrom_iff:
  "allCorrectFrom ok hs assignments = Some True \<longleftrightarrow>
     ok \<and> (\<forall>(player, cards) \<in> set assignments. \<forall>c \<in> set cards.
             \<exists>h. map_of hs player = Some h \<and> c \<in> set h)"
proof (induction assignments arbitrary: ok)
  case Nil
  then show ?case by simp
next
  case (Cons a assignments)
  obtain player cards where a: "a = (player, cards)" by (cases a)
  show ?case
  proof (cases "cards = []")
    case True
    with a Cons.IH [of ok] show ?thesis by simp
  next
    case False
    then obtain c where c: "c \<in> set cards" by (cases cards) auto
    show ?thesis
    proof (cases "map_of hs player")
      case None
      with a False c Cons.IH [of False] show ?thesis
        by (auto simp add: getProperty_def split: option.splits)
    next
      case (Some h)
      with a False Cons.IH [of "ok \<and> list_all (\<lambda>crd. crd \<in> set h) cards"] show ?thesis
        by (auto simp add: getProperty_def list_all_iff)
    qed
  qed
qed

lemma allCorrect_iff:
  "allCorrect hs assignments = Some True \<longleftrightarrow>
     (\<forall>(player, cards) \<in> set assignments. \<forall>c \<in> set cards.
        \<exists>h. map_of hs player = Some h \<and> c \<in> set h)"
  by (simp add: allCorrect_def allCorrectFrom_iff)

lemma not_allSameTeam:
  assumes "p \<in> set (map fst assignments)" "p \<in> set (teams_team1 gs)"
    and "q \<in> set (map fst assignments)" "q \<in> set (teams_team2 gs)"
    and "set (teams_team1 gs) \<inter> set (teams_team2 gs) = {}"
  shows "\<not> allSameTeam gs assignments"
proof (cases "firstPlayerTeam gs assignments")
  case Team1
  from assms have "q \<notin> set (teams_team1 gs)" by auto
  with Team1 assms(3) show ?thesis
    by (auto simp add: allSameTeam_def list_all_iff)
next
  case Team2
  from assms have "p \<notin> set (teams_team2 gs)" by auto
  with Team2 assms(1) show ?thesis
    by (auto simp add: allSameTeam_def list_all_iff)
qed

text \<open>
  Claim C6. The claim names one of the half-suits and assigns as many cards as it has,
  each assigned card is in the hand of the player it is assigned to, and among the named
  players one is on team 1 and one on team 2 (no player being on both). Then no hand
  changes, and the half-suit is appended to the claimed list of a team that does not
  contain the claimer: to team 2's when the claimer is on team 1, to team 1's otherwise;
  the other team's list is unchanged.
\<close>

theorem makeClaim_two_teams:
  assumes g: "games w gc = Some gs"
    and cl: "playerAt gs = Some claimer"
    and su: "map_of getHalfSuits suit = Some suitCards"
    and size: "length (concat (map snd assignments)) = length suitCards"
    and held: "\<forall>(player, cards) \<in> set assignments. \<forall>c \<in> set cards.
                 \<exists>h. map_of (hands gs) player = Some h \<and> c \<in> set h"
    and t1: "\<exists>p \<in> set (map fst assignments). p \<in> set (teams_team1 gs)"
    and t2: "\<exists>q \<in> set (map fst assignments). q \<in> set (teams_team2 gs)"
    and dis: "set (teams_team1 gs) \<inter> set (teams_team2 gs) = {}"
  shows "\<exists>gs'. games (world_of (handleMessage e h (MakeClaim gc suit assignments) w)) gc = Some gs' \<and>
     hands gs' = hands gs \<and>
     ((claimer \<notin> set (teams_team2 gs) \<and>
       claimedSuits_team2 gs' = claimedSuits_team2 gs @ [suit] \<and>
       claimedSuits_team1 gs' = claimedSuits_team1 gs) \<or>
      (claimer \<notin> set (teams_team1 gs) \<and>
       claimedSuits_team1 gs' = claimedSuits_team1 gs @ [suit] \<and>
       claimedSuits_team2 gs' = claimedSuits_team2 gs))"
proof -
  from t1 t2 dis have ns: "\<not> allSameTeam gs assignments"
    using not_allSameTeam by blast
  from held have ac: "allCorrect (hands gs) assignments = Some True"
    by (simp add: allCorrect_iff)
  from su have sl: "suitLength suit = Some (Some (length suitCards))"
    by (rule suitLength_table)
  let ?opp = "if claimer \<in> set (teams_team1 gs) then Team2 else Team1"
  have r: "fst (resolveClaim gs suit assignments (Some (length suitCards))) = False"
    "fst (snd (resolveClaim gs suit assignments (Some (length suitCards))))
       = pushClaimed ?opp suit gs"
    using size ac ns cl by (simp_all add: resolveClaim_def includesOpt_def Let_def)
  have st: "games (world_of (handleMessage e h (MakeClaim gc suit assignments) w)) gc
              = Some (afterClaim (pushClaimed ?opp suit gs))"
    using makeClaim_stored [OF g sl, of e h assignments] r by simp
  show ?thesis
  proof (cases "claimer \<in> set (teams_team1 gs)")
    case True
    with dis have "claimer \<notin> set (teams_team2 gs)" by auto
    with True st show ?thesis
      by (simp add: afterClaim_def pushClaimed_def)
  next
    case False
    with st show ?thesis
      by (simp add: afterClaim_def pushClaimed_def)
  qed
qed

text \<open>
  In the started game of six, Alice (team 1) holds the nine and ten of hearts and Bob
  (team 2) the other four high hearts. Alice claims the high hearts, naming herself and
  Bob for the cards they hold: team 2 gets the half-suit and every hand stays as it was.
\<close>

theorem makeClaim_two_teams_witness:
  "map_option (\<lambda>s. (playerAt s, teams_team1 s, teams_team2 s,
                     map_of (hands s) ''Alice'', map_of (hands s) ''Bob'',
                     claimedSuits_team1 s, claimedSuits_team2 s))
       (games startedSix ''FISH01'')
     = Some (Some ''Alice'', [''Alice'', ''Carol'', ''Eve''], [''Bob'', ''Dave'', ''Frank''],
             Some (map (\<lambda>r. r @ heart) (lowRanks @ [''9'', ''10''])),
             Some (map (\<lambda>r. r @ heart) [''J'', ''Q'', ''K'', ''A'']
                   @ map (\<lambda>r. r @ diamond) [''2'', ''3'', ''4'', ''5'']),
             [], []) \<and>
   map_of getHalfSuits ''high-hearts'' = Some (map (\<lambda>r. r @ heart) highRanks) \<and>
   map_option (\<lambda>s. (claimedSuits_team1 s, claimedSuits_team2 s, hands s))
       (games (world_of (handleMessage demoEnv anon
           (MakeClaim ''FISH01'' ''high-hearts''
              [(''Alice'', map (\<lambda>r. r @ heart) [''9'', ''10'']),
               (''Bob'', map (\<lambda>r. r @ heart) [''J'', ''Q'', ''K'', ''A''])]) startedSix))
          ''FISH01'')
     = map_option (\<lambda>s. ([], [''high-hearts''], hands s)) (games startedSix ''FISH01'')"
proof -
  let ?asg = "[(''Alice'', map (\<lambda>r. r @ heart) [''9'', ''10'']),
               (''Bob'', map (\<lambda>r. r @ heart) [''J'', ''Q'', ''K'', ''A''])]"
  have pre: "map_option (\<lambda>s. (playerAt s, teams_team1 s, teams_team2 s,
                     map_of (hands s) ''Alice'', map_of (hands s) ''Bob'',
                     claimedSuits_team1 s, claimedSuits_team2 s))
       (games startedSix ''FISH01'')
     = Some (Some ''Alice'', [''Alice'', ''Carol'', ''Eve''], [''Bob'', ''Dave'', ''Frank''],
             Some (map (\<lambda>r. r @ heart) (lowRanks @ [''9'', ''10''])),
             Some (map (\<lambda>r. r @ heart) [''J'', ''Q'', ''K'', ''A'']
                   @ map (\<lambda>r. r @ diamond) [''2'', ''3'', ''4'', ''5'']),
             [], [])"
    by code_simp
  then obtain gs where gs: "games startedSix ''FISH01'' = Some gs"
    and at: "playerAt gs = Some ''Alice''"
    and t1: "teams_team1 gs = [''Alice'', ''Carol'', ''Eve'']"
    and t2: "teams_team2 gs = [''Bob'', ''Dave'', ''Frank'']"
    and ha: "map_of (hands gs) ''Alice'' = Some (map (\<lambda>r. r @ heart) (lowRanks @ [''9'', ''10'']))"
    and hb: "map_of (hands gs) ''Bob'' = Some (map (\<lambda>r. r @ heart) [''J'', ''Q'', ''K'', ''A'']
                   @ map (\<lambda>r. r @ diamond) [''2'', ''3'', ''4'', ''5''])"
    and c1: "claimedSuits_team1 gs = []" and c2: "claimedSuits_team2 gs = []"
    by auto
  have su: "map_of getHalfSuits ''high-hearts'' = Some (map (\<lambda>r. r @ heart) highRanks)"
    by (simp add: getHalfSuits_def)
  have size: "length (concat (map snd ?asg)) = length (map (\<lambda>r. r @ heart) highRanks)"
    by (simp add: highRanks_def)
  have held: "\<forall>(player, cards) \<in> set ?asg. \<forall>c \<in> set cards.
                 \<exists>h. map_of (hands gs) player = Some h \<and> c \<in> set h"
    using ha hb by (simp add: lowRanks_def)
  have m1: "\<exists>p \<in> set (map fst ?asg). p \<in> set (teams_team1 gs)"
    using t1 by simp
  have m2: "\<exists>q \<in> set (map fst ?asg). q \<in> set (teams_team2 gs)"
    using t2 by simp
  have dis: "set (teams_team1 gs) \<inter> set (teams_team2 gs) = {}"
    using t1 t2 by simp
  from makeClaim_two_teams [OF gs at su size held m1 m2 dis, of demoEnv anon] t1 c1 c2
  have post: "map_option (\<lambda>s. (claimedSuits_team1 s, claimedSuits_team2 s, hands s))
       (games (world_of (handleMessage demoEnv anon
           (MakeClaim ''FISH01'' ''high-hearts'' ?asg) startedSix)) ''FISH01'')
     = map_option (\<lambda>s. ([], [''high-hearts''], hands s)) (games startedSix ''FISH01'')"
    using gs by auto
  from pre su post show ?thesis by simp
qed

text \<open>
  Claim C1, as amended. The claim names one of the half-suits and the number of cards
  assigned, all players together, is not 6. Then the claim fails with the log line "not
  all cards assigned": no list of claimed half-suits and no hand changes. If 8 or more
  half-suits are claimed already, the game-end path runs: \<open>gameEnded\<close> is sent, with the
  winner and the two scores, and \<open>currentTurn\<close> stays; otherwise \<open>currentTurn\<close> becomes
  \<open>(currentTurn + 1) % players.length\<close>, the next player, and nothing else changes.
\<close>

theorem makeClaim_incomplete:
  assumes "games w gc = Some gs"
    and "map_of getHalfSuits suit = Some suitCards"
    and "length (concat (map snd assignments)) \<noteq> 6"
  shows "games (world_of (handleMessage e h (MakeClaim gc suit assignments) w)) gc =
           Some (if 8 \<le> length (claimedSuits_team1 gs) + length (claimedSuits_team2 gs)
                 then gs
                 else gs\<lparr>currentTurn := (currentTurn gs + 1) smod int (length (players gs))\<rparr>) \<and>
         snd (snd (resolveClaim gs suit assignments (Some (length suitCards)))) =
           jsString (playerAt gs) @ '' failed to claim '' @ suit @ '' - not all cards assigned'' \<and>
         (0 \<le> currentTurn gs \<longrightarrow>
            (currentTurn gs + 1) smod int (length (players gs))
              = (currentTurn gs + 1) mod int (length (players gs))) \<and>
         (8 \<le> length (claimedSuits_team1 gs) + length (claimedSuits_team2 gs) \<longrightarrow>
            sent (handleMessage e h (MakeClaim gc suit assignments) w) =
              [GameEnded
                 (if length (claimedSuits_team1 gs) > length (claimedSuits_team2 gs)
                  then ''Team 1''
                  else if length (claimedSuits_team2 gs) > length (claimedSuits_team1 gs)
                  then ''Team 2'' else ''Tie'')
                 (length (claimedSuits_team1 gs)) (length (claimedSuits_team2 gs))])"
proof -
  from assms(2) have six: "length suitCards = 6"
    by (rule halfSuit_length)
  from assms(2) have sl: "suitLength suit = Some (Some (length suitCards))"
    by (rule suitLength_table)
  from six assms(3) have r: "resolveClaim gs suit assignments (Some (length suitCards)) =
      (False, gs, jsString (playerAt gs) @ '' failed to claim '' @ suit
                    @ '' - not all cards assigned'')"
    by (simp add: resolveClaim_def Let_def)
  from makeClaim_stored [OF assms(1) sl, of e h assignments] r
  have st: "games (world_of (handleMessage e h (MakeClaim gc suit assignments) w)) gc
          = Some (afterClaim gs)"
    by simp
  have en: "8 \<le> length (claimedSuits_team1 gs) + length (claimedSuits_team2 gs) \<longrightarrow>
            sent (handleMessage e h (MakeClaim gc suit assignments) w) =
              [GameEnded
                 (if length (claimedSuits_team1 gs) > length (claimedSuits_team2 gs)
                  then ''Team 1''
                  else if length (claimedSuits_team2 gs) > length (claimedSuits_team1 gs)
                  then ''Team 2'' else ''Tie'')
                 (length (claimedSuits_team1 gs)) (length (claimedSuits_team2 gs))]"
    using assms(1) sl r
    by (simp add: handleMessage_def makeClaim_def getGameState_stored endGame_def
          returns_def Let_def)
  from st r en show ?thesis
    by (simp add: afterClaim_def smod_nonneg)
qed

text \<open>
  In the started game of four, Alice claims the low hearts and leaves the seven out: the
  session is as before, but for the turn, which is Bob's. After the eighth claim of a
  whole game, four half-suits each, a claim of the low hearts that assigns no card is
  answered with \<open>gameEnded\<close>, a tie, and the session stays as it is.
\<close>

theorem makeClaim_incomplete_witness:
  "map_option (\<lambda>s. (currentTurn s, players s, claimedSuits_team1 s, claimedSuits_team2 s))
       (games startedFour ''FISH01'')
     = Some (0, [''Alice'', ''Bob'', ''Carol'', ''Dave''], [], []) \<and>
   map_of getHalfSuits ''low-hearts'' = Some (map (\<lambda>r. r @ heart) lowRanks) \<and>
   length (concat (map snd [(''Alice'', map (\<lambda>r. r @ heart) [''2'', ''3'', ''4'', ''5'', ''6''])]))
     \<noteq> 6 \<and>
   games (world_of (handleMessage demoEnv anon
       (MakeClaim ''FISH01'' ''low-hearts''
          [(''Alice'', map (\<lambda>r. r @ heart) [''2'', ''3'', ''4'', ''5'', ''6''])]) startedFour))
     ''FISH01''
     = map_option (\<lambda>s. s\<lparr>currentTurn := 1\<rparr>) (games startedFour ''FISH01'') \<and>
   map_option (\<lambda>s. (length (claimedSuits_team1 s), length (claimedSuits_team2 s)))
       (games endedFour ''FISH01'')
     = Some (4, 4) \<and>
   sent (handleMessage demoEnv anon (MakeClaim ''FISH01'' ''low-hearts'' []) endedFour)
     = [GameEnded ''Tie'' 4 4] \<and>
   games (world_of (handleMessage demoEnv anon (MakeClaim ''FISH01'' ''low-hearts'' [])
             endedFour)) ''FISH01''
     = games endedFour ''FISH01''"
proof -
  let ?asg = "[(''Alice'', map (\<lambda>r. r @ heart) [''2'', ''3'', ''4'', ''5'', ''6''])]"
  have pre: "map_option (\<lambda>s. (currentTurn s, players s, claimedSuits_team1 s, claimedSuits_team2 s))
       (games startedFour ''FISH01'')
     = Some (0, [''Alice'', ''Bob'', ''Carol'', ''Dave''], [], [])"
    by code_simp
  then obtain gs where gs: "games startedFour ''FISH01'' = Some gs"
    and ct: "currentTurn gs = 0" and ps: "players gs = [''Alice'', ''Bob'', ''Carol'', ''Dave'']"
    and c1: "claimedSuits_team1 gs = []" and c2: "claimedSuits_team2 gs = []"
    by auto
  have su: "map_of getHalfSuits ''low-hearts'' = Some (map (\<lambda>r. r @ heart) lowRanks)"
    by (simp add: getHalfSuits_def)
  have sz: "length (concat (map snd ?asg)) \<noteq> 6"
    by simp
  from makeClaim_incomplete [OF gs su sz, of demoEnv anon] ct ps c1 c2
  have post: "games (world_of (handleMessage demoEnv anon
       (MakeClaim ''FISH01'' ''low-hearts'' ?asg) startedFour)) ''FISH01''
     = map_option (\<lambda>s. s\<lparr>currentTurn := 1\<rparr>) (games startedFour ''FISH01'')"
    using gs by simp
  have pre8: "map_option (\<lambda>s. (length (claimedSuits_team1 s), length (claimedSuits_team2 s)))
       (games endedFour ''FISH01'')
     = Some (4, 4)"
    by code_simp
  then obtain ge where ge: "games endedFour ''FISH01'' = Some ge"
    and l1: "length (claimedSuits_team1 ge) = 4" and l2: "length (claimedSuits_team2 ge) = 4"
    by auto
  have sz0: "length (concat (map snd ([] :: (string \<times> string list) list))) \<noteq> 6"
    by simp
  from makeClaim_incomplete [OF ge su sz0, of demoEnv anon] l1 l2 ge
  have post8: "sent (handleMessage demoEnv anon (MakeClaim ''FISH01'' ''low-hearts'' []) endedFour)
     = [GameEnded ''Tie'' 4 4] \<and>
   games (world_of (handleMessage demoEnv anon (MakeClaim ''FISH01'' ''low-hearts'' [])
             endedFour)) ''FISH01''
     = games endedFour ''FISH01''"
    by simp
  from pre su sz post pre8 post8 show ?thesis by simp
qed

text \<open>
  Claim C1 fails as stated, twice. In the started game of four, Alice claims the low
  diamonds and assigns herself her six low hearts: the assigned cards are not the cards
  of the half-suit, yet team 1 gets the low diamonds and Alice's low hearts are removed
  (only the number of cards is compared). And after the eighth claim of a whole game,
  with Dave (position 3 of 4) to play, a claim that assigns no card leaves the turn with
  Dave.
\<close>

theorem makeClaim_incomplete_counterexample:
  "map_of getHalfSuits ''low-diamonds'' = Some (map (\<lambda>r. r @ diamond) lowRanks) \<and>
   set (concat (map snd [(''Alice'', map (\<lambda>r. r @ heart) lowRanks)]))
     \<noteq> set (map (\<lambda>r. r @ diamond) lowRanks) \<and>
   map_option (\<lambda>s. (claimedSuits_team1 s, map_of (hands s) ''Alice''))
       (games startedFour ''FISH01'')
     = Some ([], Some (map (\<lambda>r. r @ heart) (lowRanks @ highRanks))) \<and>
   map_option (\<lambda>s. (claimedSuits_team1 s, map_of (hands s) ''Alice''))
       (games (world_of (handleMessage demoEnv anon
           (MakeClaim ''FISH01'' ''low-diamonds'' [(''Alice'', map (\<lambda>r. r @ heart) lowRanks)])
           startedFour)) ''FISH01'')
     = Some ([''low-diamonds''], Some (map (\<lambda>r. r @ heart) highRanks)) \<and>
   map_option (\<lambda>s. (currentTurn s, length (players s),
                     length (claimedSuits_team1 s) + length (claimedSuits_team2 s)))
       (games endedFour ''FISH01'')
     = Some (3, 4, 8) \<and>
   map_option currentTurn
       (games (world_of (handleMessage demoEnv anon (MakeClaim ''FISH01'' ''low-hearts'' [])
           endedFour)) ''FISH01'')
     = Some 3"
proof -
  have "''2'' @ heart \<notin> set (map (\<lambda>r. r @ diamond) lowRanks)"
    by (simp add: lowRanks_def heart_def diamond_def)
  moreover have "''2'' @ heart \<in> set (concat (map snd [(''Alice'', map (\<lambda>r. r @ heart) lowRanks)]))"
    by (simp add: lowRanks_def)
  ultimately have ne: "set (concat (map snd [(''Alice'', map (\<lambda>r. r @ heart) lowRanks)]))
     \<noteq> set (map (\<lambda>r. r @ diamond) lowRanks)"
    by metis
  have a: "map_of getHalfSuits ''low-diamonds'' = Some (map (\<lambda>r. r @ diamond) lowRanks)"
    by code_simp
  have b: "map_option (\<lambda>s. (claimedSuits_team1 s, map_of (hands s) ''Alice''))
       (games startedFour ''FISH01'')
     = Some ([], Some (map (\<lambda>r. r @ heart) (lowRanks @ highRanks)))"
    by code_simp
  have c: "map_option (\<lambda>s. (claimedSuits_team1 s, map_of (hands s) ''Alice''))
       (games (world_of (handleMessage demoEnv anon
           (MakeClaim ''FISH01'' ''low-diamonds'' [(''Alice'', map (\<lambda>r. r @ heart) lowRanks)])
           startedFour)) ''FISH01'')
     = Some ([''low-diamonds''], Some (map (\<lambda>r. r @ heart) highRanks))"
    by code_simp
  have d: "map_option (\<lambda>s. (currentTurn s, length (players s),
                     length (claimedSuits_team1 s) + length (claimedSuits_team2 s)))
       (games endedFour ''FISH01'')
     = Some (3, 4, 8)"
    by code_simp
  have e: "map_option currentTurn
       (games (world_of (handleMessage demoEnv anon (MakeClaim ''FISH01'' ''low-hearts'' [])
           endedFour)) ''FISH01'')
     = Some 3"
    by code_simp
  from ne a b c d e show ?thesis by simp
qed

section \<open>Redaction in the player view\<close>

text \<open>The written-out session is the one the example run stores.\<close>

lemma startedFour_session: "games startedFour ''FISH01'' = Some dealtFour"
  by code_simp






section \<open>The lists of claimed half-suits\<close>

text \<open>What \<open>askForCard\<close> and \<open>makeClaim\<close> store, and that they touch no other session.\<close>

lemma askForCard_world:
  assumes "games w gc = Some gs"
  shows "world_of (handleMessage e h (AskForCard gc target crd) w)
           = (case map_of (hands gs) (jsString (playerAt gs)) of
                None \<Rightarrow> w
              | Some askerHand \<Rightarrow>
                  if crd \<in> set askerHand then w
                  else (case map_of (hands gs) target of
                          None \<Rightarrow> w
                        | Some targetHand \<Rightarrow> storeGameState gc (afterAsk gs target crd) w))"
proof (cases "map_of (hands gs) (jsString (playerAt gs))")
  case None
  with assms show ?thesis
    by (simp add: handleMessage_def askForCard_def getGameState_stored throws_def Let_def)
next
  case (Some askerHand)
  show ?thesis
  proof (cases "crd \<in> set askerHand")
    case True
    with assms Some show ?thesis
      by (simp add: handleMessage_def askForCard_def getGameState_stored returns_def Let_def)
  next
    case False
    show ?thesis
    proof (cases "map_of (hands gs) target")
      case None
      with assms Some False show ?thesis
        by (simp add: handleMessage_def askForCard_def getGameState_stored throws_def Let_def)
    next
      case (Some targetHand)
      show ?thesis
      proof (cases "crd \<in> set targetHand")
        case True
        with False \<open>map_of (hands gs) (jsString (playerAt gs)) = Some askerHand\<close> Some
        have ne: "jsString (playerAt gs) \<noteq> target" by auto
        with assms \<open>map_of (hands gs) (jsString (playerAt gs)) = Some askerHand\<close> Some False True
        show ?thesis
          by (simp add: handleMessage_def askForCard_def getGameState_stored afterAsk_def
                finish_def Let_def update_conv')
      next
        case no: False
        with assms \<open>map_of (hands gs) (jsString (playerAt gs)) = Some askerHand\<close> Some False
        show ?thesis
          by (simp add: handleMessage_def askForCard_def getGameState_stored afterAsk_def
                finish_def Let_def)
      qed
    qed
  qed
qed

lemma askForCard_stored:
  assumes "games w gc = Some gs"
  shows "games (world_of (handleMessage e h (AskForCard gc target crd) w)) gc
           = Some (afterAsk gs target crd)"
  using assms
  by (simp add: askForCard_world [OF assms] games_storeGameState afterAsk_def
        split: option.splits)

lemma getGameState_absent:
  "games w gc = None \<Longrightarrow> getGameState w gc = NoGame \<or> getGameState w gc = NotAGame"
  by (simp add: getGameState_def getProperty_def split: option.splits)

lemma getGameState_Game: "getGameState w gc = Game gs \<longleftrightarrow> games w gc = Some gs"
  by (auto simp add: getGameState_def getProperty_def split: option.splits)

lemma askForCard_absent:
  "games w gc = None \<Longrightarrow> world_of (handleMessage e h (AskForCard gc target crd) w) = w"
  using getGameState_absent [of w gc]
  by (auto simp add: handleMessage_def askForCard_def returns_def throws_def)

lemma askForCard_others:
  "gc' \<noteq> gc \<Longrightarrow>
   games (world_of (handleMessage e h (AskForCard gc target crd) w)) gc' = games w gc'"
  by (simp add: handleMessage_def askForCard_def storeGameState_def returns_def throws_def
        finish_def Let_def split: option.splits lookup.splits)

lemma makeClaim_absent:
  assumes "games w gc = None \<or> suitLength suit = None"
  shows "world_of (handleMessage e h (MakeClaim gc suit assignments) w) = w"
proof (cases "games w gc")
  case None
  with getGameState_absent [of w gc] show ?thesis
    by (auto simp add: handleMessage_def makeClaim_def returns_def throws_def)
next
  case (Some gs)
  with assms have "suitLength suit = None" by simp
  with Some show ?thesis
    by (simp add: handleMessage_def makeClaim_def getGameState_stored throws_def)
qed

text \<open>
  Only \<open>makeClaim\<close> changes the lists of claimed half-suits, by appending the claimed name
  to one of them.
\<close>

lemma afterAsk_claimed: "claimedLists (afterAsk gs target crd) = claimedLists gs"
  by (simp add: afterAsk_def claimedLists_def split: option.splits)

lemma afterClaim_claimed: "claimedLists (afterClaim gs) = claimedLists gs"
  by (simp add: afterClaim_def claimedLists_def)

lemma resolveClaim_claimed:
  "claimedLists (fst (snd (resolveClaim gs suit assignments n))) = claimedLists gs \<or>
   claimedLists (fst (snd (resolveClaim gs suit assignments n)))
     = (claimedSuits_team1 gs @ [suit], claimedSuits_team2 gs) \<or>
   claimedLists (fst (snd (resolveClaim gs suit assignments n)))
     = (claimedSuits_team1 gs, claimedSuits_team2 gs @ [suit])"
  by (simp add: resolveClaim_def claimedLists_def pushClaimed_def Let_def
        split: option.splits bool.splits)

lemma claimedOnce_lists: "claimedLists gs' = claimedLists gs \<Longrightarrow> claimedOnce gs' = claimedOnce gs"
  by (simp add: claimedLists_def claimedOnce_def)

lemma claimedOnce_push:
  assumes "claimedOnce gs" and "map_of getHalfSuits suit = Some suitCards"
    and "suit \<notin> set (claimedSuits_team1 gs) \<union> set (claimedSuits_team2 gs)"
    and "claimedLists gs' = (claimedSuits_team1 gs @ [suit], claimedSuits_team2 gs) \<or>
         claimedLists gs' = (claimedSuits_team1 gs, claimedSuits_team2 gs @ [suit])"
  shows "claimedOnce gs'"
proof -
  define names where "names = fst ` set getHalfSuits"
  from assms(2) have "suit \<in> names"
    unfolding names_def by (metis map_of_eq_None_iff option.distinct(1))
  moreover from assms(1)
  have "distinct (claimedSuits_team1 gs @ claimedSuits_team2 gs)"
    and "set (claimedSuits_team1 gs @ claimedSuits_team2 gs) \<subseteq> names"
    unfolding names_def by (simp_all add: claimedOnce_def)
  ultimately have "distinct (claimedSuits_team1 gs' @ claimedSuits_team2 gs') \<and>
      set (claimedSuits_team1 gs' @ claimedSuits_team2 gs') \<subseteq> names"
    using assms(3,4) by (auto simp add: claimedLists_def)
  then show ?thesis
    unfolding names_def by (simp add: claimedOnce_def)
qed

lemma makeClaim_claimedOnce:
  assumes all: "\<forall>gc gs. games w gc = Some gs \<longrightarrow> claimedOnce gs"
    and table: "\<not> offTable (MakeClaim gc0 suit assignments)"
    and fresh: "\<not> repeatsClaim (MakeClaim gc0 suit assignments) w"
    and after: "games (world_of (handleMessage e h (MakeClaim gc0 suit assignments) w)) gc = Some gs'"
  shows "claimedOnce gs'"
proof (cases "gc = gc0")
  case False
  with after all show ?thesis
    by (simp add: makeClaim_others)
next
  case True
  show ?thesis
  proof (cases "games w gc0")
    case None
    with after all show ?thesis
      by (simp add: makeClaim_absent)
  next
    case (Some gs)
    note gs = Some
    from table have "suit \<in> fst ` set getHalfSuits"
      by (simp add: offTable_def)
    then obtain suitCards where su: "map_of getHalfSuits suit = Some suitCards"
      by (metis map_of_eq_None_iff not_None_eq)
    then have sl: "suitLength suit = Some (Some (length suitCards))"
      by (rule suitLength_table)
    let ?gs1 = "fst (snd (resolveClaim gs suit assignments (Some (length suitCards))))"
    from fresh gs have fr: "suit \<notin> set (claimedSuits_team1 gs) \<union> set (claimedSuits_team2 gs)"
      by (simp add: repeatsClaim_def)
    from all gs have ok: "claimedOnce gs" by blast
    have ok1: "claimedOnce ?gs1"
      using resolveClaim_claimed [of gs suit assignments "Some (length suitCards)"]
        claimedOnce_lists [of ?gs1 gs] claimedOnce_push [OF ok su fr, of ?gs1] ok
      by blast
    from makeClaim_stored [OF gs sl, of e h assignments] after \<open>gc = gc0\<close>
    have "gs' = ?gs1 \<or> gs' = afterClaim ?gs1"
      by (auto split: if_splits)
    with ok1 show ?thesis
      using claimedOnce_lists [OF afterClaim_claimed, of ?gs1] by auto
  qed
qed

lemma askForCard_claimedOnce:
  assumes all: "\<forall>gc gs. games w gc = Some gs \<longrightarrow> claimedOnce gs"
    and after: "games (world_of (handleMessage e h (AskForCard gc0 target crd) w)) gc = Some gs'"
  shows "claimedOnce gs'"
proof (cases "gc = gc0")
  case False
  with after all show ?thesis
    by (simp add: askForCard_others)
next
  case True
  show ?thesis
  proof (cases "games w gc0")
    case None
    with after all show ?thesis
      by (simp add: askForCard_absent)
  next
    case (Some gs)
    with all have "claimedOnce gs" by blast
    moreover from askForCard_stored [OF Some, of e h target crd] after True
    have "gs' = afterAsk gs target crd" by simp
    ultimately show ?thesis
      using claimedOnce_lists [OF afterAsk_claimed, of gs target crd] by simp
  qed
qed

text \<open>
  Every message that is no claim off the table and does not repeat a claim keeps each
  half-suit claimed once.
\<close>

lemma step_claimedOnce:
  assumes all: "\<forall>gc gs. games w gc = Some gs \<longrightarrow> claimedOnce gs"
    and table: "\<not> offTable m"
    and fresh: "\<not> repeatsClaim m w"
  shows "\<forall>gc gs'. games (world_of (handleMessage e h m w)) gc = Some gs' \<longrightarrow> claimedOnce gs'"
proof (cases m)
  case (CreateGame playerName)
  with all show ?thesis
    by (auto simp add: handleMessage_def createGame_def storeGameState_def returns_def
          claimedOnce_def Let_def)
next
  case (JoinGame gc0 playerName)
  with all show ?thesis
    by (auto simp add: handleMessage_def joinGame_def storeGameState_def getGameState_Game
          returns_def throws_def claimedOnce_def Let_def split: lookup.splits if_splits)
next
  case (AssignTeams gc0 random)
  with all show ?thesis
    by (auto simp add: handleMessage_def assignTeams_def storeGameState_def getGameState_Game
          returns_def throws_def claimedOnce_def Let_def split: lookup.splits if_splits)
next
  case (StartGame gc0)
  with all show ?thesis
    by (auto simp add: handleMessage_def startGame_def storeGameState_def getGameState_Game
          returns_def throws_def finish_def claimedOnce_def Let_def
          split: lookup.splits if_splits)
next
  case (AskForCard gc0 target crd)
  with all show ?thesis
    using askForCard_claimedOnce by blast
next
  case (MakeClaim gc0 suit assignments)
  with all table fresh show ?thesis
    using makeClaim_claimedOnce by blast
next
  case (Rejoin gc0 playerName)
  with all show ?thesis
    by (simp add: handleMessage_def throws_def)
next
  case UnknownType
  with all show ?thesis
    by (simp add: handleMessage_def returns_def)
next
  case Unparseable
  with all show ?thesis
    by (simp add: handleMessage_def throws_def)
qed

lemma reachableNoRepeat_claimedOnce:
  "reachableNoRepeat w \<Longrightarrow> \<forall>gc gs. games w gc = Some gs \<longrightarrow> claimedOnce gs"
proof (induction rule: reachableNoRepeat.induct)
  case norepeat_initial
  then show ?case by (simp add: initial_def)
next
  case (norepeat_message w e m h)
  then show ?case using step_claimedOnce by blast
next
  case (norepeat_timer w c)
  then show ?case by (simp add: fireTimer_def)
qed

lemma claimedOnce_bound:
  assumes "claimedOnce gs"
  shows "length (claimedSuits_team1 gs) + length (claimedSuits_team2 gs) \<le> 8"
proof -
  let ?cs = "claimedSuits_team1 gs @ claimedSuits_team2 gs"
  from assms have "length ?cs = card (set ?cs)"
    by (simp add: claimedOnce_def distinct_card del: set_append)
  also from assms have "\<dots> \<le> card (fst ` set getHalfSuits)"
    by (intro card_mono) (simp_all add: claimedOnce_def del: set_append)
  also have "\<dots> \<le> length (map fst getHalfSuits)"
    by (metis card_length set_map)
  also have "\<dots> = 8"
    by (simp add: getHalfSuits_def)
  finally show ?thesis by simp
qed

text \<open>
  Claim C2, as amended. In every state reached from the empty store by messages and
  timers, when every \<open>makeClaim\<close> names one of the eight half-suits and none names a
  half-suit that is already in one of the two lists of its session, \<open>claimedSuits.team1\<close>
  and \<open>claimedSuits.team2\<close> of every session have no name in common and hold at most 8
  names together.
\<close>

theorem claimedSuits_disjoint_without_repeats:
  assumes "reachableNoRepeat w" and "games w gc = Some gs"
  shows "set (claimedSuits_team1 gs) \<inter> set (claimedSuits_team2 gs) = {} \<and>
         length (claimedSuits_team1 gs) + length (claimedSuits_team2 gs) \<le> 8"
proof -
  from reachableNoRepeat_claimedOnce [OF assms(1)] assms(2) have ok: "claimedOnce gs"
    by blast
  then have "set (claimedSuits_team1 gs) \<inter> set (claimedSuits_team2 gs) = {}"
    by (simp add: claimedOnce_def)
  with claimedOnce_bound [OF ok] show ?thesis by simp
qed

text \<open>
  The shared state that a message leaves does not depend on the connection that handles
  it. In the example runs every message comes from a connection bound to no game.
\<close>

lemma world_of_handler:
  "world_of (handleMessage e h m w) = world_of (handleMessage e h' m w)"
proof (cases m)
  case (CreateGame playerName)
  then show ?thesis
    by (simp add: handleMessage_def createGame_def returns_def Let_def)
next
  case (JoinGame gc playerName)
  then show ?thesis
    by (simp add: handleMessage_def joinGame_def returns_def throws_def Let_def
          split: lookup.splits)
next
  case (AssignTeams gc random)
  then show ?thesis
    by (simp add: handleMessage_def assignTeams_def returns_def throws_def Let_def
          split: lookup.splits)
next
  case (StartGame gc)
  then show ?thesis
    by (simp add: handleMessage_def startGame_def returns_def throws_def finish_def Let_def
          split: lookup.splits)
next
  case (AskForCard gc target crd)
  show ?thesis
  proof (cases "games w gc")
    case None
    with AskForCard show ?thesis by (simp add: askForCard_absent)
  next
    case (Some gs)
    with AskForCard show ?thesis by (simp add: askForCard_world)
  qed
next
  case (MakeClaim gc suit assignments)
  then show ?thesis
    by (simp add: handleMessage_def makeClaim_def endGame_def returns_def throws_def finish_def
          Let_def split: option.splits lookup.splits)
next
  case (Rejoin gc playerName)
  then show ?thesis by (simp add: handleMessage_def throws_def)
next
  case UnknownType
  then show ?thesis by (simp add: handleMessage_def returns_def)
next
  case Unparseable
  then show ?thesis by (simp add: handleMessage_def throws_def)
qed

text \<open>The example runs are runs of the server.\<close>

lemma reachable_run_demo:
  "reachable w \<Longrightarrow> reachable (run (map (\<lambda>m. (demoEnv, anon, m)) ms) w)"
proof (induction ms arbitrary: w)
  case Nil
  then show ?case by simp
next
  case (Cons m ms)
  have "\<forall>xs. mset (shuffle demoEnv xs) = mset xs"
    by (simp add: demoEnv_def)
  with Cons.prems have "reachable (world_of (handleMessage demoEnv anon m w))"
    by (rule reach_message)
  then show ?case using Cons.IH by simp
qed

lemma reachable_play: "reachable (play ms)"
  unfolding play_def by (rule reachable_run_demo) (rule reach_initial)

lemma reachableNoRepeat_run_demo:
  "reachableNoRepeat w \<Longrightarrow> noRepeats (map (\<lambda>m. (demoEnv, anon, m)) ms) w
    \<Longrightarrow> reachableNoRepeat (run (map (\<lambda>m. (demoEnv, anon, m)) ms) w)"
proof (induction ms arbitrary: w)
  case Nil
  then show ?case by simp
next
  case (Cons m ms)
  have "\<forall>xs. mset (shuffle demoEnv xs) = mset xs"
    by (simp add: demoEnv_def)
  with Cons.prems have "reachableNoRepeat (world_of (handleMessage demoEnv anon m w))"
    by (simp add: norepeat_message)
  with Cons.prems show ?case using Cons.IH by simp
qed

lemma reachableNoRepeat_play:
  "noRepeats (map (\<lambda>m. (demoEnv, anon, m)) ms) initial \<Longrightarrow> reachableNoRepeat (play ms)"
  unfolding play_def by (rule reachableNoRepeat_run_demo) (rule norepeat_initial)

text \<open>
  The whole game of four, eight claims of eight half-suits, is such a run: each team ends
  with four half-suits, all different.
\<close>

theorem claimedSuits_disjoint_without_repeats_witness:
  "reachableNoRepeat endedFour \<and>
   map_option claimedLists (games endedFour ''FISH01'')
     = Some ([''low-hearts'', ''low-clubs'', ''high-hearts'', ''high-clubs''],
             [''low-diamonds'', ''low-spades'', ''high-diamonds'', ''high-spades'']) \<and>
   set [''low-hearts'', ''low-clubs'', ''high-hearts'', ''high-clubs'']
     \<inter> set [''low-diamonds'', ''low-spades'', ''high-diamonds'', ''high-spades''] = {} \<and>
   length [''low-hearts'', ''low-clubs'', ''high-hearts'', ''high-clubs'']
     + length [''low-diamonds'', ''low-spades'', ''high-diamonds'', ''high-spades''] \<le> 8"
proof -
  have "noRepeats (map (\<lambda>m. (demoEnv, anon, m)) (startedOf four @ eightClaims)) initial"
    by code_simp
  then have r: "reachableNoRepeat endedFour"
    unfolding endedFour_def by (rule reachableNoRepeat_play)
  have c: "map_option claimedLists (games endedFour ''FISH01'')
     = Some ([''low-hearts'', ''low-clubs'', ''high-hearts'', ''high-clubs''],
             [''low-diamonds'', ''low-spades'', ''high-diamonds'', ''high-spades''])"
    by code_simp
  then obtain gs where gs: "games endedFour ''FISH01'' = Some gs"
    and c1: "claimedSuits_team1 gs = [''low-hearts'', ''low-clubs'', ''high-hearts'', ''high-clubs'']"
    and c2: "claimedSuits_team2 gs
               = [''low-diamonds'', ''low-spades'', ''high-diamonds'', ''high-spades'']"
    by (auto simp add: claimedLists_def)
  from claimedSuits_disjoint_without_repeats [OF r gs] c1 c2 r c show ?thesis
    by simp
qed

text \<open>
  Claim C2 fails as stated. \<open>makeClaim\<close> does not look at the lists before it appends. In
  the game of six, Alice claims the high hearts naming herself and Bob, so Bob's team
  gets them and the cards stay; Bob makes the same claim, and Alice's team gets them too:
  the name is in both lists. Made nine times, the claim leaves nine claimed half-suits
  (the eighth ends the game, the ninth is still handled).
\<close>

theorem claimedSuits_disjoint_counterexample:
  "reachable claimedTwice \<and>
   map_option claimedLists (games claimedTwice ''FISH01'')
     = Some ([''high-hearts''], [''high-hearts'']) \<and>
   reachable claimedNineTimes \<and>
   map_option (\<lambda>s. length (claimedSuits_team1 s) + length (claimedSuits_team2 s))
       (games claimedNineTimes ''FISH01'')
     = Some 9"
proof -
  have a: "map_option claimedLists (games claimedTwice ''FISH01'')
             = Some ([''high-hearts''], [''high-hearts''])"
    by code_simp
  have b: "map_option (\<lambda>s. length (claimedSuits_team1 s) + length (claimedSuits_team2 s))
       (games claimedNineTimes ''FISH01'')
     = Some 9"
    by code_simp
  from a b show ?thesis
    by (simp add: claimedTwice_def claimedNineTimes_def reachable_play)
qed

text \<open>
  Outside the claim as amended: a name that is not in the table but names an inherited
  member is claimed like a half-suit, the \<open>length\<close> of the function standing for the
  number of its cards. In the started game of four, Alice claims \<open>toString\<close> with no card
  assigned and her team gets it; she claims \<open>constructor\<close> with the two of hearts
  assigned to herself, her team gets it and the card leaves her hand. A name that is
  neither in the table nor inherited makes \<open>suitCards.length\<close> throw.
\<close>

lemma makeClaim_inherited_name_example:
  "map_option claimedLists
       (games (world_of (handleMessage demoEnv anon
           (MakeClaim ''FISH01'' ''toString'' []) startedFour)) ''FISH01'')
     = Some ([''toString''], []) \<and>
   map_option (\<lambda>s. (claimedLists s, map_option length (map_of (hands s) ''Alice'')))
       (games (world_of (handleMessage demoEnv anon
           (MakeClaim ''FISH01'' ''constructor'' [(''Alice'', [''2'' @ heart])]) startedFour))
          ''FISH01'')
     = Some (([''constructor''], []), Some 11) \<and>
   handleMessage demoEnv anon (MakeClaim ''FISH01'' ''no-trumps'' []) startedFour
     = returns [ErrorMsg ''Failed to process request''] anon startedFour"
proof -
  have a: "map_option claimedLists
       (games (world_of (handleMessage demoEnv anon
           (MakeClaim ''FISH01'' ''toString'' []) startedFour)) ''FISH01'')
     = Some ([''toString''], [])"
    by code_simp
  have b: "map_option (\<lambda>s. (claimedLists s, map_option length (map_of (hands s) ''Alice'')))
       (games (world_of (handleMessage demoEnv anon
           (MakeClaim ''FISH01'' ''constructor'' [(''Alice'', [''2'' @ heart])]) startedFour))
          ''FISH01'')
     = Some (([''constructor''], []), Some 11)"
    by code_simp
  have "suitLength ''no-trumps'' = None"
    by code_simp
  then have "world_of (handleMessage demoEnv anon (MakeClaim ''FISH01'' ''no-trumps'' [])
               startedFour) = startedFour"
    by (simp add: makeClaim_absent)
  moreover have "sent (handleMessage demoEnv anon (MakeClaim ''FISH01'' ''no-trumps'' [])
                   startedFour) = [ErrorMsg ''Failed to process request'']"
    by code_simp
  moreover have "thrown (handleMessage demoEnv anon (MakeClaim ''FISH01'' ''no-trumps'' [])
                   startedFour) = False"
    by (simp add: handleMessage_def Let_def)
  moreover have "handler_of (handleMessage demoEnv anon (MakeClaim ''FISH01'' ''no-trumps'' [])
                   startedFour) = anon"
    by (simp add: handleMessage_def makeClaim_def endGame_def returns_def throws_def
          finish_def Let_def split: option.splits lookup.splits)
  ultimately have c: "handleMessage demoEnv anon (MakeClaim ''FISH01'' ''no-trumps'' [])
                        startedFour
                      = returns [ErrorMsg ''Failed to process request''] anon startedFour"
    by (simp add: returns_def)
  from a b c show ?thesis by simp
qed

section \<open>Conservation of the cards\<close>



























text \<open>The states with a record of removed cards are the states of the server.\<close>

lemma reachableWith_reachable: "reachableWith w r \<Longrightarrow> reachable w"
  by (induction rule: reachableWith.induct) (auto intro: reachable.intros)

lemma reachable_reachableWith: "reachable w \<Longrightarrow> \<exists>r. reachableWith w r"
  by (induction rule: reachable.induct) (auto intro: reachableWith.intros)






end
